theory Spec2Isabelle
  imports Complex_Main "HOL-Library.AList" "HOL-Library.Log_Nat"
begin

section \<open>JavaScript numbers\<close>

text \<open>
  A number of the program is an IEEE 754 double: a rational that has a binary64
  representation, an infinity, or NaN. An operation on finite numbers rounds the exact
  result to the nearest double, to the even one on a tie; a result that rounds to
  \<open>2 ^ 1024\<close> or more is an infinity. The two zeros are not told apart: no route
  shows the sign of a zero. A \<open>Fin r\<close> whose \<open>r\<close> has no binary64 representation is
  no number of the program, and no operation below makes one from doubles. The success
  rate of the dashboard, a quotient of two counts times 100, is kept as the exact
  rational.
\<close>

datatype jsnum = Fin rat | PosInf | NegInf | NaN

definition roundHalfEven :: "rat \<Rightarrow> int" where
  "roundHalfEven q =
     (let f = \<lfloor>q\<rfloor>; d = q - of_int f
      in if d < 1 / 2 then f else if d > 1 / 2 then f + 1 else if even f then f else f + 1)"

text \<open>\<open>binExp a\<close> is the binary exponent of a positive \<open>a\<close>: \<open>2 ^ e \<le> a < 2 ^ (e + 1)\<close>.\<close>

definition binExp :: "rat \<Rightarrow> int" where
  "binExp a =
     (let (p, q) = quotient_of a;
          k = bitlen p - bitlen q
      in if 2 powi k \<le> a then k else k - 1)"

text \<open>Rounding to a double: 53 significant bits, exponents from -1022 (below it the
  spacing stays \<open>2 ^ -1074\<close>) to 1023.\<close>

definition rd :: "rat \<Rightarrow> jsnum" where
  "rd x =
     (if x = 0 then Fin 0
      else
        (let a = \<bar>x\<bar>;
             e = max (binExp a) (- 1022);
             ulp = 2 powi (e - 52);
             n = roundHalfEven (a / ulp)
         in if e > 1023 \<or> (e = 1023 \<and> n \<ge> 9007199254740992)
            then (if x > 0 then PosInf else NegInf)
            else Fin (if x > 0 then of_int n * ulp else - (of_int n * ulp))))"

fun fneg :: "jsnum \<Rightarrow> jsnum" where
  "fneg (Fin a) = Fin (- a)"
| "fneg PosInf = NegInf"
| "fneg NegInf = PosInf"
| "fneg NaN = NaN"

fun fadd :: "jsnum \<Rightarrow> jsnum \<Rightarrow> jsnum" where
  "fadd NaN _ = NaN"
| "fadd _ NaN = NaN"
| "fadd PosInf NegInf = NaN"
| "fadd NegInf PosInf = NaN"
| "fadd PosInf _ = PosInf"
| "fadd _ PosInf = PosInf"
| "fadd NegInf _ = NegInf"
| "fadd _ NegInf = NegInf"
| "fadd (Fin a) (Fin b) = rd (a + b)"

definition fsub :: "jsnum \<Rightarrow> jsnum \<Rightarrow> jsnum" where
  "fsub x y = fadd x (fneg y)"

fun fmul :: "jsnum \<Rightarrow> jsnum \<Rightarrow> jsnum" where
  "fmul NaN _ = NaN"
| "fmul _ NaN = NaN"
| "fmul (Fin a) (Fin b) = rd (a * b)"
| "fmul (Fin a) y = (if a = 0 then NaN else if a > 0 then y else fneg y)"
| "fmul x (Fin b) = (if b = 0 then NaN else if b > 0 then x else fneg x)"
| "fmul x y = (if x = y then PosInf else NegInf)"

text \<open>\<^verbatim>\<open>x > y\<close>: false as soon as one side is NaN.\<close>

fun fgt :: "jsnum \<Rightarrow> jsnum \<Rightarrow> bool" where
  "fgt NaN _ = False"
| "fgt _ NaN = False"
| "fgt (Fin a) (Fin b) = (a > b)"
| "fgt PosInf y = (y \<noteq> PosInf)"
| "fgt x PosInf = False"
| "fgt NegInf y = False"
| "fgt x NegInf = True"

section \<open>Data model (shared/schema.ts)\<close>

text \<open>
  Identifiers are strings in the source. The ones the store assigns come from
  \<^verbatim>\<open>randomUUID()\<close>; a route parameter or the literal \<^verbatim>\<open>"default"\<close> is any
  other string. \<open>UUID n\<close> is the n-th identifier drawn from the generator, \<open>Name s\<close>
  a string that the generator never returns.

  Money fields are text in the source (\<^verbatim>\<open>decimal(10, 4)\<close>, which the insert
  schemas take as any string) and the two counters are numbers. The routes use such a
  text only through \<^verbatim>\<open>parseFloat\<close>, so the model keeps, for each text, the number
  that \<^verbatim>\<open>parseFloat\<close> makes of it: NaN for a text that is no number, an infinity
  for one like \<^verbatim>\<open>1e999\<close>. The text that \<^verbatim>\<open>toString\<close> makes of a number other than
  NaN parses back to that number. Timestamps are milliseconds.
\<close>

datatype ident = UUID nat | Name string

datatype jsvalue =
    Undefined
  | Null
  | Bool bool
  | Num jsnum
  | Str string
  | Arr "jsvalue list"
  | Obj "(string \<times> jsvalue) list"

text \<open>A template literal, kept as its fragments: fixed text, an interpolated number
  or money text (kept, as everywhere, as the number it parses to), and
  \<^verbatim>\<open>id.slice(0, 8)\<close> of an identifier.\<close>

datatype frag = Lit string | Amount jsnum | IdSlice ident

record User =
  id :: ident
  username :: string
  password :: string
  balance :: jsnum
  totalEarnings :: jsnum

record Platform =
  id :: ident
  name :: string
  apiKey :: "string option"
  apiUrl :: string
  status :: string
  jobsCompleted :: nat
  successRate :: rat

record InsertPlatform =
  name :: string
  apiKey :: "string option"
  apiUrl :: string

record Job =
  id :: ident
  platformId :: "ident option"
  externalId :: "string option"
  type :: string
  subType :: "string option"
  status :: string
  reward :: jsnum
  data :: jsvalue
  result :: "string option"
  errorMessage :: "string option"
  retryCount :: nat
  createdAt :: int
  completedAt :: "int option"

record InsertJob =
  platformId :: "ident option"
  externalId :: "string option"
  type :: string
  subType :: "string option"
  reward :: jsnum
  data :: jsvalue

record Transaction =
  id :: ident
  jobId :: "ident option"
  type :: string
  amount :: jsnum
  status :: string
  paymentMethod :: "string option"
  paymentAddress :: "string option"
  transactionHash :: "string option"
  createdAt :: int
  completedAt :: "int option"

record InsertTransaction =
  jobId :: "ident option"
  type :: string
  amount :: jsnum
  paymentMethod :: "string option"
  paymentAddress :: "string option"

record ActivityLog =
  id :: ident
  jobId :: "ident option"
  action :: string
  details :: "frag list option"
  status :: string
  createdAt :: int

record InsertActivityLog =
  jobId :: "ident option"
  action :: string
  details :: "frag list option"
  status :: string

record Settings =
  id :: ident
  key :: string
  "value" :: jsvalue

record WithdrawalRequest =
  amount :: jsnum
  paymentMethod :: string
  paymentAddress :: string

record DashboardStats =
  totalEarnings :: jsnum
  balance :: jsnum
  jobsCompletedToday :: nat
  successRate :: rat
  pendingWithdrawals :: jsnum

section \<open>The in-memory store (server/storage.ts)\<close>

text \<open>
  A JavaScript \<^verbatim>\<open>Map\<close> keeps its entries in insertion order: it is an association
  list, \<^verbatim>\<open>set\<close> is \<^const>\<open>AList.update\<close> (replace in place, or append),
  \<^verbatim>\<open>delete\<close> is \<^const>\<open>AList.delete\<close>, \<^verbatim>\<open>get\<close> is \<^const>\<open>map_of\<close>.
  \<open>uuidSeed\<close> is the state of \<^verbatim>\<open>randomUUID\<close>.
\<close>

record MemStorage =
  users :: "(ident \<times> User) list"
  platforms :: "(ident \<times> Platform) list"
  jobs :: "(ident \<times> Job) list"
  transactions :: "(ident \<times> Transaction) list"
  activityLogs :: "(ident \<times> ActivityLog) list"
  settings :: "(string \<times> Settings) list"
  balance :: jsnum
  totalEarnings :: jsnum
  uuidSeed :: nat

definition randomUUID :: "MemStorage \<Rightarrow> ident \<times> MemStorage" where
  "randomUUID s = (UUID (uuidSeed s), s\<lparr>uuidSeed := Suc (uuidSeed s)\<rparr>)"

definition values_of :: "('k \<times> 'v) list \<Rightarrow> 'v list" where
  "values_of m = map snd m"

definition keys_of :: "('k \<times> 'v) list \<Rightarrow> 'k list" where
  "keys_of m = map fst m"

definition updateUserBalance :: "ident \<Rightarrow> jsnum \<Rightarrow> MemStorage \<Rightarrow> MemStorage" where
  "updateUserBalance uid amt s =
     (let s1 = (case map_of (users s) uid of
                  Some user \<Rightarrow>
                    s\<lparr>users := AList.update uid
                         (user\<lparr>User.balance := fadd (User.balance user) amt,
                               User.totalEarnings :=
                                 fadd (User.totalEarnings user)
                                   (if fgt amt (Fin 0) then amt else Fin 0)\<rparr>)
                         (users s)\<rparr>
                | None \<Rightarrow> s);
          s2 = s1\<lparr>MemStorage.balance := fadd (MemStorage.balance s1) amt\<rparr>
      in if fgt amt (Fin 0)
         then s2\<lparr>MemStorage.totalEarnings := fadd (MemStorage.totalEarnings s2) amt\<rparr>
         else s2)"

definition getPlatform :: "ident \<Rightarrow> MemStorage \<Rightarrow> Platform option" where
  "getPlatform pid s = map_of (platforms s) pid"

definition createPlatform :: "InsertPlatform \<Rightarrow> MemStorage \<Rightarrow> Platform \<times> MemStorage" where
  "createPlatform ins s =
     (let (pid, s1) = randomUUID s;
          platform = \<lparr>Platform.id = pid,
                      name = InsertPlatform.name ins,
                      apiKey = InsertPlatform.apiKey ins,
                      apiUrl = InsertPlatform.apiUrl ins,
                      status = ''connected'',
                      jobsCompleted = 0,
                      successRate = 0\<rparr>
      in (platform, s1\<lparr>platforms := AList.update pid platform (platforms s1)\<rparr>))"

definition deletePlatform :: "ident \<Rightarrow> MemStorage \<Rightarrow> MemStorage" where
  "deletePlatform pid s = s\<lparr>platforms := AList.delete pid (platforms s)\<rparr>"

text \<open>\<^verbatim>\<open>Array.prototype.sort\<close> is stable, as \<^const>\<open>sort_key\<close> is; the comparator
  puts the most recent \<open>createdAt\<close> first.\<close>

definition getJobs :: "MemStorage \<Rightarrow> Job list" where
  "getJobs s = sort_key (\<lambda>j. - Job.createdAt j) (values_of (jobs s))"

definition getJob :: "ident \<Rightarrow> MemStorage \<Rightarrow> Job option" where
  "getJob jid s = map_of (jobs s) jid"

definition createJob :: "int \<Rightarrow> InsertJob \<Rightarrow> MemStorage \<Rightarrow> Job \<times> MemStorage" where
  "createJob now ins s =
     (let (jid, s1) = randomUUID s;
          job = \<lparr>Job.id = jid,
                 platformId = InsertJob.platformId ins,
                 externalId = InsertJob.externalId ins,
                 type = InsertJob.type ins,
                 subType = InsertJob.subType ins,
                 status = ''queued'',
                 reward = InsertJob.reward ins,
                 data = InsertJob.data ins,
                 result = None,
                 errorMessage = None,
                 retryCount = 0,
                 createdAt = now,
                 completedAt = None\<rparr>
      in (job, s1\<lparr>jobs := AList.update jid job (jobs s1)\<rparr>))"

text \<open>\<^verbatim>\<open>Partial<Job>\<close> merged by \<^verbatim>\<open>Object.assign\<close> is the function that overwrites
  the given fields.\<close>

definition updateJob :: "ident \<Rightarrow> (Job \<Rightarrow> Job) \<Rightarrow> MemStorage \<Rightarrow> Job option \<times> MemStorage" where
  "updateJob jid updates s =
     (case map_of (jobs s) jid of
        Some job \<Rightarrow> (Some (updates job), s\<lparr>jobs := AList.update jid (updates job) (jobs s)\<rparr>)
      | None \<Rightarrow> (None, s))"

definition deleteJob :: "ident \<Rightarrow> MemStorage \<Rightarrow> MemStorage" where
  "deleteJob jid s = s\<lparr>jobs := AList.delete jid (jobs s)\<rparr>"

text \<open>\<open>today\<close> is the value of \<^verbatim>\<open>today.setHours(0, 0, 0, 0)\<close>: local midnight.\<close>

definition getJobsToday :: "int \<Rightarrow> MemStorage \<Rightarrow> Job list" where
  "getJobsToday today s =
     filter (\<lambda>job. Job.createdAt job \<ge> today \<and> Job.status job = ''completed'')
       (values_of (jobs s))"

definition getTransactions :: "MemStorage \<Rightarrow> Transaction list" where
  "getTransactions s = sort_key (\<lambda>t. - Transaction.createdAt t) (values_of (transactions s))"

definition createTransaction ::
  "int \<Rightarrow> InsertTransaction \<Rightarrow> MemStorage \<Rightarrow> Transaction \<times> MemStorage" where
  "createTransaction now ins s =
     (let (tid, s1) = randomUUID s;
          transaction = \<lparr>Transaction.id = tid,
                         jobId = InsertTransaction.jobId ins,
                         type = InsertTransaction.type ins,
                         amount = InsertTransaction.amount ins,
                         status = ''pending'',
                         paymentMethod = InsertTransaction.paymentMethod ins,
                         paymentAddress = InsertTransaction.paymentAddress ins,
                         transactionHash = None,
                         createdAt = now,
                         completedAt = None\<rparr>;
          s2 = s1\<lparr>transactions := AList.update tid transaction (transactions s1)\<rparr>;
          s3 = (if Transaction.type transaction = ''withdrawal''
                then s2\<lparr>MemStorage.balance :=
                          fsub (MemStorage.balance s2) (Transaction.amount transaction)\<rparr>
                else s2)
      in (transaction, s3))"

definition getActivityLogs :: "nat \<Rightarrow> MemStorage \<Rightarrow> ActivityLog list" where
  "getActivityLogs limit s =
     take limit (sort_key (\<lambda>l. - ActivityLog.createdAt l) (values_of (activityLogs s)))"

definition createActivityLog ::
  "int \<Rightarrow> InsertActivityLog \<Rightarrow> MemStorage \<Rightarrow> ActivityLog \<times> MemStorage" where
  "createActivityLog now ins s =
     (let (lid, s1) = randomUUID s;
          log = \<lparr>ActivityLog.id = lid,
                 jobId = InsertActivityLog.jobId ins,
                 action = InsertActivityLog.action ins,
                 details = InsertActivityLog.details ins,
                 status = InsertActivityLog.status ins,
                 createdAt = now\<rparr>
      in (log, s1\<lparr>activityLogs := AList.update lid log (activityLogs s1)\<rparr>))"

definition getSetting :: "string \<Rightarrow> MemStorage \<Rightarrow> Settings option" where
  "getSetting k s = map_of (settings s) k"

definition setSetting :: "string \<Rightarrow> jsvalue \<Rightarrow> MemStorage \<Rightarrow> Settings \<times> MemStorage" where
  "setSetting k v s =
     (case map_of (settings s) k of
        Some setting \<Rightarrow>
          (let setting' = setting\<lparr>Settings.value := v\<rparr>
           in (setting', s\<lparr>settings := AList.update k setting' (settings s)\<rparr>))
      | None \<Rightarrow>
          (let (sid, s1) = randomUUID s;
               setting = \<lparr>Settings.id = sid, key = k, value = v\<rparr>
           in (setting, s1\<lparr>settings := AList.update k setting (settings s1)\<rparr>)))"

definition getDashboardStats :: "int \<Rightarrow> MemStorage \<Rightarrow> DashboardStats" where
  "getDashboardStats today s =
     (let jobsToday = getJobsToday today s;
          allJobs = getJobs s;
          completedJobs = length (filter (\<lambda>j. Job.status j = ''completed'') allJobs);
          totalJobs = length allJobs;
          rate = (if totalJobs > 0
                  then (of_nat completedJobs / of_nat totalJobs) * 100
                  else 0);
          pending = foldl (\<lambda>sum tx. fadd sum (Transaction.amount tx)) (Fin 0)
                      (filter (\<lambda>tx. Transaction.type tx = ''withdrawal''
                                    \<and> Transaction.status tx = ''pending'')
                         (values_of (transactions s)))
      in \<lparr>DashboardStats.totalEarnings = MemStorage.totalEarnings s,
          balance = MemStorage.balance s,
          jobsCompletedToday = length jobsToday,
          successRate = rate,
          pendingWithdrawals = pending\<rparr>)"

subsection \<open>Demo data\<close>

text \<open>
  \<^verbatim>\<open>initDemoData\<close> draws from \<^verbatim>\<open>Math.random()\<close>: \<open>rnd k\<close> is the k-th draw, a
  number in \<open>[0, 1)\<close>. \<^verbatim>\<open>toFixed(d)\<close> writes a number with \<open>d\<close> decimals, the nearest
  such decimal to its exact value and the larger one on a tie (from \<open>10 ^ 21\<close> on, and
  for an infinity or NaN, it writes the number as \<^verbatim>\<open>toString\<close> does); the field keeps
  the number this text parses to. \<open>now\<close> is the clock at start-up.
\<close>

definition toFixed :: "nat \<Rightarrow> jsnum \<Rightarrow> jsnum" where
  "toFixed d x =
     (case x of
        Fin v \<Rightarrow>
          (if \<bar>v\<bar> \<ge> 10 ^ 21 then x
           else (let n = \<lfloor>\<bar>v\<bar> * 10 ^ d + 1 / 2\<rfloor>
                 in rd ((if v < 0 then - 1 else 1) * of_int n / 10 ^ d)))
      | _ \<Rightarrow> x)"

definition emptyStorage :: MemStorage where
  "emptyStorage = \<lparr>users = [], platforms = [], jobs = [], transactions = [],
                    activityLogs = [], settings = [],
                    balance = Fin 0, totalEarnings = Fin 0, uuidSeed = 0\<rparr>"

definition jobTypes :: "string list" where
  "jobTypes = [''captcha'', ''typing'']"

definition subTypes :: "string \<Rightarrow> string list" where
  "subTypes t = (if t = ''captcha'' then [''image_captcha'', ''text_captcha'']
                 else [''data_entry'', ''transcription''])"

definition statuses :: "string list" where
  "statuses = [''queued'', ''processing'', ''completed'', ''failed'']"

definition demoJobRecord :: "(nat \<Rightarrow> rat) \<Rightarrow> int \<Rightarrow> ident \<Rightarrow> ident \<Rightarrow> nat \<Rightarrow> Job" where
  "demoJobRecord rnd now platform1 jid i =
     (let t = jobTypes ! (i mod 2)
      in \<lparr>Job.id = jid,
          platformId = Some platform1,
          externalId = Some (''ext-'' @ [''01234567'' ! i]),
          type = t,
          subType = Some (subTypes t ! (i mod 2)),
          status = statuses ! (i mod 4),
          reward = toFixed 4 (fadd (fmul (Fin (rnd i)) (rd 0.05)) (rd 0.01)),
          data = (if t = ''captcha''
                  then Obj [(''imageUrl'',
                             Str ''https://via.placeholder.com/200x80?text=CAPTCHA'')]
                  else Obj [(''text'', Str ''Sample text for typing job'')]),
          result = (if statuses ! (i mod 4) = ''completed'' then Some ''xyz123'' else None),
          errorMessage = (if statuses ! (i mod 4) = ''failed''
                          then Some ''Timeout exceeded'' else None),
          retryCount = (if statuses ! (i mod 4) = ''failed'' then 2 else 0),
          createdAt = now - int i * 60000,
          completedAt = (if statuses ! (i mod 4) = ''completed'' then Some now else None)\<rparr>)"

definition demoJob :: "(nat \<Rightarrow> rat) \<Rightarrow> int \<Rightarrow> ident \<Rightarrow> nat \<Rightarrow> MemStorage \<Rightarrow> MemStorage" where
  "demoJob rnd now platform1 i s =
     (let (jid, s1) = randomUUID s;
          job = demoJobRecord rnd now platform1 jid i
      in s1\<lparr>jobs := AList.update jid job (jobs s1)\<rparr>)"

definition demoTransactionRecord ::
  "(nat \<Rightarrow> rat) \<Rightarrow> int \<Rightarrow> ident list \<Rightarrow> ident \<Rightarrow> nat \<Rightarrow> Transaction" where
  "demoTransactionRecord rnd now jobKeys tid i =
     (let isEarning = (i mod 4 \<noteq> 0)
      in \<lparr>Transaction.id = tid,
          jobId = (if isEarning then Some (jobKeys ! (i mod length jobKeys)) else None),
          type = (if isEarning then ''earning'' else ''withdrawal''),
          amount = (if isEarning
                    then toFixed 4 (fadd (fmul (Fin (rnd (8 + i))) (rd 0.05)) (rd 0.01))
                    else toFixed 2 (fadd (fmul (Fin (rnd (8 + i))) (Fin 10)) (Fin 5))),
          status = (if i < 12 then ''completed'' else ''pending''),
          paymentMethod = (if isEarning then None
                           else Some ([''paypal'', ''bitcoin'', ''ethereum''] ! (i mod 3))),
          paymentAddress = (if isEarning then None else Some ''user@example.com''),
          transactionHash = None,
          createdAt = now - int i * 3600000,
          completedAt = (if i < 12 then Some (now - int i * 3600000 + 60000) else None)\<rparr>)"

definition demoTransaction :: "(nat \<Rightarrow> rat) \<Rightarrow> int \<Rightarrow> nat \<Rightarrow> MemStorage \<Rightarrow> MemStorage" where
  "demoTransaction rnd now i s =
     (let (tid, s1) = randomUUID s;
          tx = demoTransactionRecord rnd now (keys_of (jobs s1)) tid i
      in s1\<lparr>transactions := AList.update tid tx (transactions s1)\<rparr>)"

definition actions :: "(string \<times> string) list" where
  "actions = [(''CAPTCHA solved successfully'', ''success''),
              (''Typing job completed'', ''success''),
              (''Job failed - timeout'', ''error''),
              (''New job received'', ''info''),
              (''Platform connected'', ''info'')]"

definition demoActivityLog :: "int \<Rightarrow> nat \<Rightarrow> MemStorage \<Rightarrow> MemStorage" where
  "demoActivityLog now i s =
     (let act = actions ! (i mod length actions);
          (lid, s1) = randomUUID s;
          log = \<lparr>ActivityLog.id = lid,
                 jobId = Some (keys_of (jobs s1) ! (i mod length (jobs s1))),
                 action = fst act,
                 details = Some [Lit ''Job ID: '',
                                 IdSlice (keys_of (jobs s1) ! (i mod length (jobs s1))),
                                 Lit ''...''],
                 status = snd act,
                 createdAt = now - int i * 30000\<rparr>
      in s1\<lparr>activityLogs := AList.update lid log (activityLogs s1)\<rparr>)"

definition initDemoData :: "(nat \<Rightarrow> rat) \<Rightarrow> int \<Rightarrow> MemStorage" where
  "initDemoData rnd now =
     (let s0 = emptyStorage\<lparr>MemStorage.balance := rd 25.4523,
                            MemStorage.totalEarnings := rd 156.8912\<rparr>;
          (pid, s1) = randomUUID s0;
          platform1 = \<lparr>Platform.id = pid,
                       name = ''2Captcha'',
                       apiKey = Some ''demo-key-hidden'',
                       apiUrl = ''https://api.2captcha.com'',
                       status = ''connected'',
                       jobsCompleted = 1245,
                       successRate = 94.5\<rparr>;
          s2 = s1\<lparr>platforms := AList.update pid platform1 (platforms s1)\<rparr>;
          s3 = fold (demoJob rnd now pid) [0..<8] s2;
          s4 = fold (demoTransaction rnd now) [0..<15] s3
      in fold (demoActivityLog now) [0..<20] s4)"

section \<open>The routes (server/routes.ts)\<close>

text \<open>
  What a JavaScript condition makes of a value, and \<^verbatim>\<open>v?.k\<close>: only an object has
  the properties the routes read (\<open>imageUrl\<close>, \<open>text\<close>, \<open>format\<close>); an object lists each
  of its keys once.
\<close>

fun truthy :: "jsvalue \<Rightarrow> bool" where
  "truthy Undefined = False"
| "truthy Null = False"
| "truthy (Bool b) = b"
| "truthy (Num n) = (n \<noteq> Fin 0 \<and> n \<noteq> NaN)"
| "truthy (Str s) = (s \<noteq> [])"
| "truthy (Arr _) = True"
| "truthy (Obj _) = True"

fun getProp :: "jsvalue \<Rightarrow> string \<Rightarrow> jsvalue" where
  "getProp (Obj kvs) k = (case map_of kvs k of Some v \<Rightarrow> v | None \<Rightarrow> Undefined)"
| "getProp _ k = Undefined"

text \<open>
  The optional completion module: the four operations it exports, and what a call does,
  which is to return text or to throw. \<open>openaiModule = None\<close> is the module not loaded.
  The clock and the module are the environment of a request.
\<close>

datatype ai_call =
    SolveCaptchaImage jsvalue
  | SolveCaptchaText jsvalue
  | TranscribeImage jsvalue
  | ProcessDataEntry jsvalue jsvalue

datatype ai_outcome = Returns string | ThrowsError string | ThrowsOther

record env =
  now :: int
  today :: int
  openaiModule :: "(ai_call \<Rightarrow> ai_outcome) option"

datatype body =
    ErrorBody string
  | ZodErrorBody
  | StatsBody DashboardStats
  | JobBody Job
  | PlatformBody Platform
  | TransactionBody Transaction
  | SuccessBody
  | SuccessResultBody string
  | SuccessEnabledBody jsvalue

record response =
  code :: nat
  body :: body
  calls :: "ai_call list"

definition respond :: "nat \<Rightarrow> body \<Rightarrow> response" where
  "respond c b = \<lparr>code = c, body = b, calls = []\<rparr>"

definition get_api_stats :: "env \<Rightarrow> MemStorage \<Rightarrow> response \<times> MemStorage" where
  "get_api_stats e s = (respond 200 (StatsBody (getDashboardStats (today e) s)), s)"

text \<open>A request body that \<^verbatim>\<open>insertJobSchema.parse\<close> rejects is \<open>None\<close>; one it
  accepts is the parsed record. The same for platforms.\<close>

definition post_api_jobs :: "env \<Rightarrow> InsertJob option \<Rightarrow> MemStorage \<Rightarrow> response \<times> MemStorage" where
  "post_api_jobs e parsed s =
     (case parsed of
        None \<Rightarrow> (respond 400 ZodErrorBody, s)
      | Some d \<Rightarrow>
          (let (job, s1) = createJob (now e) d s;
               (_, s2) = createActivityLog (now e)
                           \<lparr>InsertActivityLog.jobId = Some (Job.id job),
                            action = ''New job created'',
                            details = Some [Lit (Job.type job), Lit '' job queued''],
                            status = ''info''\<rparr> s1
           in (respond 201 (JobBody job), s2)))"

definition delete_api_jobs :: "env \<Rightarrow> ident \<Rightarrow> MemStorage \<Rightarrow> response \<times> MemStorage" where
  "delete_api_jobs e jid s =
     (case getJob jid s of
        None \<Rightarrow> (respond 404 (ErrorBody ''Job not found''), s)
      | Some job \<Rightarrow>
          (let s1 = deleteJob jid s;
               (_, s2) = createActivityLog (now e)
                           \<lparr>InsertActivityLog.jobId = None,
                            action = ''Job cancelled'',
                            details = Some [Lit ''Job '', IdSlice jid, Lit ''... cancelled''],
                            status = ''info''\<rparr> s1
           in (respond 200 SuccessBody, s2)))"

text \<open>
  The inner \<^verbatim>\<open>try\<close> of the process route up to the external call: either the call
  it is about to make, or the message of the \<^verbatim>\<open>Error\<close> it throws instead.
\<close>

definition selectOperation :: "Job \<Rightarrow> string + ai_call" where
  "selectOperation job =
     (let jobData = Job.data job in
      if Job.type job = ''captcha'' then
        (if truthy (getProp jobData ''imageUrl'')
         then Inr (SolveCaptchaImage (getProp jobData ''imageUrl''))
         else if truthy (getProp jobData ''text'')
         then Inr (SolveCaptchaText (getProp jobData ''text''))
         else Inl ''No CAPTCHA data provided'')
      else if Job.type job = ''typing'' then
        (if truthy (getProp jobData ''imageUrl'')
         then Inr (TranscribeImage (getProp jobData ''imageUrl''))
         else if truthy (getProp jobData ''text'') \<and> truthy (getProp jobData ''format'')
         then Inr (ProcessDataEntry (getProp jobData ''text'') (getProp jobData ''format''))
         else Inl ''No typing data provided'')
      else Inl ''Unknown job type'')"

text \<open>
  \<open>job\<close> in the handler is the object held by the store, so after the first
  \<^verbatim>\<open>updateJob\<close> it reads as the updated record. The handler waits for the external
  call, and the server may take other requests meanwhile; here a request is one step, the
  outcome of its call given by the environment.
\<close>

definition post_api_jobs_process :: "env \<Rightarrow> ident \<Rightarrow> MemStorage \<Rightarrow> response \<times> MemStorage" where
  "post_api_jobs_process e jid s =
     (case getJob jid s of
        None \<Rightarrow> (respond 404 (ErrorBody ''Job not found''), s)
      | Some job0 \<Rightarrow>
     (case openaiModule e of
        None \<Rightarrow> (respond 503 (ErrorBody ''AI processing not available''), s)
      | Some ai \<Rightarrow>
          (let s1 = snd (updateJob (Job.id job0) (\<lambda>j. j\<lparr>Job.status := ''processing''\<rparr>) s);
               job = job0\<lparr>Job.status := ''processing''\<rparr>;
               (outcome, made) = (case selectOperation job of
                                    Inl msg \<Rightarrow> (ThrowsError msg, [])
                                  | Inr c \<Rightarrow> (ai c, [c]))
           in case outcome of
                Returns res \<Rightarrow>
                  (let s2 = snd (updateJob (Job.id job)
                                   (\<lambda>j. j\<lparr>Job.status := ''completed'',
                                           Job.result := Some res,
                                           Job.completedAt := Some (now e)\<rparr>) s1);
                       (_, s3) = createTransaction (now e)
                                   \<lparr>InsertTransaction.jobId = Some (Job.id job),
                                    type = ''earning'',
                                    amount = Job.reward job,
                                    paymentMethod = None,
                                    paymentAddress = None\<rparr> s2;
                       s4 = updateUserBalance (Name ''default'') (Job.reward job) s3;
                       (_, s5) = createActivityLog (now e)
                                   \<lparr>InsertActivityLog.jobId = Some (Job.id job),
                                    action = (if Job.type job = ''captcha''
                                              then ''CAPTCHA solved''
                                              else ''Typing job completed''),
                                    details = Some [Lit ''Earned $'', Amount (Job.reward job)],
                                    status = ''success''\<rparr> s4
                   in (\<lparr>code = 200, body = SuccessResultBody res, calls = made\<rparr>, s5))
              | _ \<Rightarrow>
                  (let errorMessage = (case outcome of ThrowsError msg \<Rightarrow> msg
                                                     | _ \<Rightarrow> ''Processing failed'');
                       s2 = snd (updateJob (Job.id job)
                                   (\<lambda>j. j\<lparr>Job.status := ''failed'',
                                           Job.errorMessage := Some errorMessage,
                                           Job.retryCount := Job.retryCount job + 1\<rparr>) s1);
                       (_, s3) = createActivityLog (now e)
                                   \<lparr>InsertActivityLog.jobId = Some (Job.id job),
                                    action = ''Job failed'',
                                    details = Some [Lit errorMessage],
                                    status = ''error''\<rparr> s2
                   in (\<lparr>code = 500, body = ErrorBody errorMessage, calls = made\<rparr>, s3)))))"

definition post_api_platforms ::
  "env \<Rightarrow> InsertPlatform option \<Rightarrow> MemStorage \<Rightarrow> response \<times> MemStorage" where
  "post_api_platforms e parsed s =
     (case parsed of
        None \<Rightarrow> (respond 400 ZodErrorBody, s)
      | Some d \<Rightarrow>
          (let (platform, s1) = createPlatform d s;
               (_, s2) = createActivityLog (now e)
                           \<lparr>InsertActivityLog.jobId = None,
                            action = ''Platform connected'',
                            details = Some [Lit (Platform.name platform),
                                            Lit '' added successfully''],
                            status = ''success''\<rparr> s1
           in (respond 201 (PlatformBody platform), s2)))"

definition delete_api_platforms :: "env \<Rightarrow> ident \<Rightarrow> MemStorage \<Rightarrow> response \<times> MemStorage" where
  "delete_api_platforms e pid s =
     (case getPlatform pid s of
        None \<Rightarrow> (respond 404 (ErrorBody ''Platform not found''), s)
      | Some platform \<Rightarrow>
          (let s1 = deletePlatform pid s;
               (_, s2) = createActivityLog (now e)
                           \<lparr>InsertActivityLog.jobId = None,
                            action = ''Platform disconnected'',
                            details = Some [Lit (Platform.name platform), Lit '' removed''],
                            status = ''info''\<rparr> s1
           in (respond 200 SuccessBody, s2)))"

text \<open>\<^verbatim>\<open>withdrawalRequestSchema\<close>: a number (NaN is none) that is positive, one of
  four payment methods, an address of at least one character. Nothing asks for a finite
  amount.\<close>

definition withdrawalRequestSchema :: "WithdrawalRequest \<Rightarrow> bool" where
  "withdrawalRequestSchema d \<longleftrightarrow>
     WithdrawalRequest.amount d \<noteq> NaN
     \<and> fgt (WithdrawalRequest.amount d) (Fin 0)
     \<and> WithdrawalRequest.paymentMethod d \<in> set [''paypal'', ''bitcoin'', ''ethereum'', ''usdt'']
     \<and> length (WithdrawalRequest.paymentAddress d) \<ge> 1"

definition post_api_withdrawals ::
  "env \<Rightarrow> WithdrawalRequest \<Rightarrow> MemStorage \<Rightarrow> response \<times> MemStorage" where
  "post_api_withdrawals e d s =
     (if \<not> withdrawalRequestSchema d then (respond 400 ZodErrorBody, s)
      else
        (let stats = getDashboardStats (today e) s in
         if fgt (WithdrawalRequest.amount d) (DashboardStats.balance stats)
         then (respond 400 (ErrorBody ''Insufficient balance''), s)
         else
           (let (transaction, s1) = createTransaction (now e)
                                      \<lparr>InsertTransaction.jobId = None,
                                       type = ''withdrawal'',
                                       amount = WithdrawalRequest.amount d,
                                       paymentMethod = Some (WithdrawalRequest.paymentMethod d),
                                       paymentAddress = Some (WithdrawalRequest.paymentAddress d)\<rparr> s;
                (_, s2) = createActivityLog (now e)
                            \<lparr>InsertActivityLog.jobId = None,
                             action = ''Withdrawal requested'',
                             details = Some [Lit ''$'', Amount (WithdrawalRequest.amount d),
                                             Lit '' via '',
                                             Lit (WithdrawalRequest.paymentMethod d)],
                             status = ''info''\<rparr> s1
            in (respond 201 (TransactionBody transaction), s2))))"

definition post_api_settings_auto_process ::
  "env \<Rightarrow> jsvalue \<Rightarrow> MemStorage \<Rightarrow> response \<times> MemStorage" where
  "post_api_settings_auto_process e enabled s =
     (let (_, s1) = setSetting ''auto-process'' (Obj [(''enabled'', enabled)]) s;
          (_, s2) = createActivityLog (now e)
                      \<lparr>InsertActivityLog.jobId = None,
                       action = (if truthy enabled then ''Auto-processing enabled''
                                 else ''Auto-processing disabled''),
                       details = None,
                       status = ''info''\<rparr> s1
      in (respond 200 (SuccessEnabledBody enabled), s2))"

text \<open>
  The requests that reach the store. The remaining routes (lists of jobs, platforms,
  transactions and logs, one job, the auto-process flag) only read it.
\<close>

datatype request =
    GetStats
  | PostJobs "InsertJob option"
  | DeleteJob ident
  | PostJobProcess ident
  | PostPlatforms "InsertPlatform option"
  | DeletePlatform ident
  | PostWithdrawals WithdrawalRequest
  | PostAutoProcess jsvalue

fun handle :: "env \<Rightarrow> request \<Rightarrow> MemStorage \<Rightarrow> response \<times> MemStorage" where
  "handle e GetStats s = get_api_stats e s"
| "handle e (PostJobs parsed) s = post_api_jobs e parsed s"
| "handle e (DeleteJob jid) s = delete_api_jobs e jid s"
| "handle e (PostJobProcess jid) s = post_api_jobs_process e jid s"
| "handle e (PostPlatforms parsed) s = post_api_platforms e parsed s"
| "handle e (DeletePlatform pid) s = delete_api_platforms e pid s"
| "handle e (PostWithdrawals d) s = post_api_withdrawals e d s"
| "handle e (PostAutoProcess enabled) s = post_api_settings_auto_process e enabled s"

text \<open>The store after a sequence of requests, each with its environment; the states
  the running server can be in are those reached from the demo data.\<close>

fun serve :: "(env \<times> request) list \<Rightarrow> MemStorage \<Rightarrow> MemStorage" where
  "serve [] s = s"
| "serve ((e, r) # rs) s = serve rs (snd (handle e r s))"

inductive reachable :: "MemStorage \<Rightarrow> bool" where
  start: "reachable (initDemoData rnd t0)"
| request: "reachable s \<Longrightarrow> reachable (snd (handle e r s))"

section \<open>What the specification speaks of\<close>

text \<open>The ledger of the claim: the sum of the amounts of the earning transactions minus
  the sum of the amounts of the withdrawal transactions, whatever their status; once as a
  program adds numbers, from the left in doubles, and once exactly, on the values of
  finite amounts.\<close>

definition fsum :: "jsnum list \<Rightarrow> jsnum" where
  "fsum xs = foldl fadd (Fin 0) xs"

fun finValue :: "jsnum \<Rightarrow> rat" where
  "finValue (Fin r) = r"
| "finValue _ = 0"

definition ledgerNet :: "Transaction list \<Rightarrow> jsnum" where
  "ledgerNet txs =
     fsub (fsum (map Transaction.amount (filter (\<lambda>t. Transaction.type t = ''earning'') txs)))
          (fsum (map Transaction.amount (filter (\<lambda>t. Transaction.type t = ''withdrawal'') txs)))"

definition exactNet :: "Transaction list \<Rightarrow> rat" where
  "exactNet txs =
     sum_list (map (\<lambda>t. finValue (Transaction.amount t))
                 (filter (\<lambda>t. Transaction.type t = ''earning'') txs))
     - sum_list (map (\<lambda>t. finValue (Transaction.amount t))
                   (filter (\<lambda>t. Transaction.type t = ''withdrawal'') txs))"

text \<open>What the store does to the balance for one transaction, and for a list of them
  in the order of their creation.\<close>

definition applyTransaction :: "jsnum \<Rightarrow> Transaction \<Rightarrow> jsnum" where
  "applyTransaction b t =
     (if Transaction.type t = ''earning'' then fadd b (Transaction.amount t)
      else if Transaction.type t = ''withdrawal'' then fsub b (Transaction.amount t)
      else b)"

definition pendingWithdrawalAmounts :: "MemStorage \<Rightarrow> jsnum list" where
  "pendingWithdrawalAmounts s =
     map Transaction.amount
       (filter (\<lambda>t. Transaction.type t = ''withdrawal'' \<and> Transaction.status t = ''pending'')
          (values_of (transactions s)))"


definition completedJobs :: "MemStorage \<Rightarrow> Job list" where
  "completedJobs s = filter (\<lambda>j. Job.status j = ''completed'') (values_of (jobs s))"

text \<open>The four combinations of job type and payload that have an external operation.
  A payload is present when the handler's test of it succeeds.\<close>

definition hasPayload :: "Job \<Rightarrow> string \<Rightarrow> bool" where
  "hasPayload job k = truthy (getProp (Job.data job) k)"

definition supportedCombination :: "Job \<Rightarrow> bool" where
  "supportedCombination job \<longleftrightarrow>
     Job.type job = ''captcha'' \<and> hasPayload job ''imageUrl''
     \<or> Job.type job = ''captcha'' \<and> hasPayload job ''text''
     \<or> Job.type job = ''typing'' \<and> hasPayload job ''imageUrl''
     \<or> Job.type job = ''typing'' \<and> hasPayload job ''text'' \<and> hasPayload job ''format''"

definition descriptiveErrors :: "string list" where
  "descriptiveErrors =
     [''No CAPTCHA data provided'', ''No typing data provided'', ''Unknown job type'']"

text \<open>A transaction as \<^verbatim>\<open>createTransaction\<close> leaves it.\<close>

definition freshlyCreated :: "Transaction \<Rightarrow> bool" where
  "freshlyCreated t \<longleftrightarrow>
     Transaction.status t = ''pending''
     \<and> Transaction.transactionHash t = None
     \<and> Transaction.completedAt t = None"

text \<open>The half of the claimed invariant of \<open>completedAt\<close> that does hold: a completed
  job has a completion time.\<close>

definition completedHasTime :: "Job \<Rightarrow> bool" where
  "completedHasTime j \<longleftrightarrow> Job.status j \<noteq> ''completed'' \<or> Job.completedAt j \<noteq> None"

section \<open>Invariant of the store, and what the proofs speak of\<close>

text \<open>Every key of the transaction and activity-log maps was drawn from the identifier
  generator, and every job is stored under its own \<open>id\<close>.\<close>

definition issued :: "nat \<Rightarrow> ident \<Rightarrow> bool" where
  "issued n k = (case k of UUID i \<Rightarrow> i < n | Name _ \<Rightarrow> False)"

definition storeInv :: "MemStorage \<Rightarrow> bool" where
  "storeInv s \<longleftrightarrow>
     list_all (issued (uuidSeed s)) (keys_of (transactions s))
     \<and> list_all (issued (uuidSeed s)) (keys_of (activityLogs s))
     \<and> list_all (\<lambda>kj. Job.id (snd kj) = fst kj) (jobs s)"

text \<open>From \<open>s\<close> to \<open>s'\<close> the transaction map only gained entries at its end, each as
  \<^verbatim>\<open>createTransaction\<close> leaves it, and the balance is the old one with these
  transactions applied in order.\<close>

definition grows :: "MemStorage \<Rightarrow> MemStorage \<Rightarrow> bool" where
  "grows s s' \<longleftrightarrow> (\<exists>new. transactions s' = transactions s @ new
      \<and> list_all freshlyCreated (values_of new)
      \<and> MemStorage.balance s' = foldl applyTransaction (MemStorage.balance s) (values_of new))"

section \<open>Concrete inputs\<close>

definition zeroDraws :: "nat \<Rightarrow> rat" where
  "zeroDraws k = 0"

definition demoStore :: MemStorage where
  "demoStore = initDemoData zeroDraws 0"

definition aiAnswers :: "ai_call \<Rightarrow> ai_outcome" where
  "aiAnswers c = Returns ''4''"

definition aiFails :: "ai_call \<Rightarrow> ai_outcome" where
  "aiFails c = ThrowsError ''CAPTCHA solving failed''"

definition envAnswering :: env where
  "envAnswering = \<lparr>now = 1000, today = 0, openaiModule = Some aiAnswers\<rparr>"

definition envFailing :: env where
  "envFailing = \<lparr>now = 1000, today = 0, openaiModule = Some aiFails\<rparr>"

definition envNoModule :: env where
  "envNoModule = \<lparr>now = 1000, today = 0, openaiModule = None\<rparr>"

definition negativeRewardJob :: InsertJob where
  "negativeRewardJob = \<lparr>InsertJob.platformId = None, externalId = None,
                         type = ''captcha'', subType = None, reward = Fin (- 1),
                         data = Obj [(''text'', Str ''2+2=?'')]\<rparr>"

definition withdrawAll :: WithdrawalRequest where
  "withdrawAll = \<lparr>WithdrawalRequest.amount = rd 25.4523, paymentMethod = ''paypal'',
                   paymentAddress = ''user@example.com''\<rparr>"

definition withdrawTooMuch :: WithdrawalRequest where
  "withdrawTooMuch = \<lparr>WithdrawalRequest.amount = Fin 100, paymentMethod = ''paypal'',
                       paymentAddress = ''user@example.com''\<rparr>"

definition withdrawNegative :: WithdrawalRequest where
  "withdrawNegative = \<lparr>WithdrawalRequest.amount = Fin (- 5), paymentMethod = ''paypal'',
                        paymentAddress = ''user@example.com''\<rparr>"

definition withdrawMost :: WithdrawalRequest where
  "withdrawMost = \<lparr>WithdrawalRequest.amount = rd 21.6, paymentMethod = ''paypal'',
                    paymentAddress = ''user@example.com''\<rparr>"

definition withdrawTenth :: WithdrawalRequest where
  "withdrawTenth = \<lparr>WithdrawalRequest.amount = rd 0.1, paymentMethod = ''paypal'',
                     paymentAddress = ''user@example.com''\<rparr>"

definition withdrawInfinity :: WithdrawalRequest where
  "withdrawInfinity = \<lparr>WithdrawalRequest.amount = PosInf, paymentMethod = ''paypal'',
                        paymentAddress = ''user@example.com''\<rparr>"

definition tenthInsert :: InsertTransaction where
  "tenthInsert = \<lparr>InsertTransaction.jobId = None, type = ''withdrawal'', amount = rd 0.1,
                   paymentMethod = Some ''paypal'',
                   paymentAddress = Some ''user@example.com''\<rparr>"

definition afterOneTenth :: MemStorage where
  "afterOneTenth = serve [(envNoModule, PostWithdrawals withdrawTenth)] demoStore"

definition afterTwoTenths :: MemStorage where
  "afterTwoTenths = serve [(envNoModule, PostWithdrawals withdrawTenth)] afterOneTenth"

definition infiniteRewardJob :: InsertJob where
  "infiniteRewardJob = \<lparr>InsertJob.platformId = None, externalId = None,
                         type = ''captcha'', subType = None, reward = PosInf,
                         data = Obj [(''text'', Str ''2+2=?'')]\<rparr>"

definition storeWithInfiniteJob :: MemStorage where
  "storeWithInfiniteJob = serve [(envAnswering, PostJobs (Some infiniteRewardJob))] demoStore"

definition storeWithInfiniteBalance :: MemStorage where
  "storeWithInfiniteBalance =
     serve [(envAnswering, PostJobProcess (UUID 44))] storeWithInfiniteJob"

definition withdrawRest :: WithdrawalRequest where
  "withdrawRest = \<lparr>WithdrawalRequest.amount = rd 3.8523, paymentMethod = ''paypal'',
                    paymentAddress = ''user@example.com''\<rparr>"

definition afterMost :: MemStorage where
  "afterMost = serve [(envNoModule, PostWithdrawals withdrawMost)] demoStore"

definition afterOneEarning :: MemStorage where
  "afterOneEarning = serve [(envAnswering, PostJobProcess (UUID 1))] demoStore"

definition afterTwoEarnings :: MemStorage where
  "afterTwoEarnings = serve [(envAnswering, PostJobProcess (UUID 1))] afterOneEarning"

definition storeWithNaNBalance :: MemStorage where
  "storeWithNaNBalance =
     serve [(envNoModule, PostWithdrawals withdrawInfinity)] storeWithInfiniteBalance"

definition storeWithNegativeJob :: MemStorage where
  "storeWithNegativeJob = serve [(envAnswering, PostJobs (Some negativeRewardJob))] demoStore"


section \<open>Lemmas about the store\<close>

lemma update_fresh: "k \<notin> set (map fst al) \<Longrightarrow> AList.update k v al = al @ [(k, v)]"
  by (induction al) auto

lemma issued_fresh: "list_all (issued n) ks \<Longrightarrow> UUID n \<notin> set ks"
  by (auto simp: list_all_iff issued_def)

lemma issued_mono: "list_all (issued n) ks \<Longrightarrow> n \<le> m \<Longrightarrow> list_all (issued m) ks"
  by (auto simp: list_all_iff issued_def split: ident.splits)

lemma update_issued:
  "list_all (issued n) (map fst al) \<Longrightarrow> AList.update (UUID n) v al = al @ [(UUID n, v)]"
  by (rule update_fresh) (erule issued_fresh)

lemma issued_Suc: "issued (Suc n) (UUID n)" by (simp add: issued_def)

lemma job_keys_update:
  "list_all (\<lambda>kj. Job.id (snd kj) = fst kj) al \<Longrightarrow> Job.id v = k
   \<Longrightarrow> list_all (\<lambda>kj. Job.id (snd kj) = fst kj) (AList.update k v al)"
  by (induction al) auto

lemma job_keys_delete:
  "list_all (\<lambda>kj. Job.id (snd kj) = fst kj) al
   \<Longrightarrow> list_all (\<lambda>kj. Job.id (snd kj) = fst kj) (AList.delete k al)"
  by (induction al) auto

lemma job_keys_map_of:
  "list_all (\<lambda>kj. Job.id (snd kj) = fst kj) al \<Longrightarrow> map_of al k = Some j \<Longrightarrow> Job.id j = k"
  by (induction al) (auto split: if_splits)

subsection \<open>createActivityLog\<close>

lemma log_keeps:
  "transactions (snd (createActivityLog t ins s)) = transactions s"
  "jobs (snd (createActivityLog t ins s)) = jobs s"
  "MemStorage.balance (snd (createActivityLog t ins s)) = MemStorage.balance s"
  "MemStorage.totalEarnings (snd (createActivityLog t ins s)) = MemStorage.totalEarnings s"
  "uuidSeed (snd (createActivityLog t ins s)) = Suc (uuidSeed s)"
  by (simp_all add: createActivityLog_def randomUUID_def Let_def)

lemma log_appends:
  "storeInv s \<Longrightarrow> activityLogs (snd (createActivityLog t ins s))
     = activityLogs s @ [(UUID (uuidSeed s), fst (createActivityLog t ins s))]"
  by (simp add: createActivityLog_def randomUUID_def Let_def storeInv_def keys_of_def update_issued)

lemma log_fields:
  "ActivityLog.status (fst (createActivityLog t ins s)) = InsertActivityLog.status ins"
  "ActivityLog.jobId (fst (createActivityLog t ins s)) = InsertActivityLog.jobId ins"
  "ActivityLog.createdAt (fst (createActivityLog t ins s)) = t"
  by (simp_all add: createActivityLog_def randomUUID_def Let_def)

lemma log_inv: "storeInv s \<Longrightarrow> storeInv (snd (createActivityLog t ins s))"
  by (auto simp: createActivityLog_def randomUUID_def Let_def storeInv_def keys_of_def
        update_issued issued_Suc elim: issued_mono)

subsection \<open>createTransaction\<close>

lemma tx_keeps:
  "jobs (snd (createTransaction t ins s)) = jobs s"
  "activityLogs (snd (createTransaction t ins s)) = activityLogs s"
  "MemStorage.totalEarnings (snd (createTransaction t ins s)) = MemStorage.totalEarnings s"
  "uuidSeed (snd (createTransaction t ins s)) = Suc (uuidSeed s)"
  by (simp_all add: createTransaction_def randomUUID_def Let_def)

lemma tx_balance:
  "MemStorage.balance (snd (createTransaction t ins s)) =
     (if InsertTransaction.type ins = ''withdrawal''
      then fsub (MemStorage.balance s) (InsertTransaction.amount ins)
      else MemStorage.balance s)"
  by (simp add: createTransaction_def randomUUID_def Let_def)

lemma tx_fields:
  "Transaction.status (fst (createTransaction t ins s)) = ''pending''"
  "Transaction.transactionHash (fst (createTransaction t ins s)) = None"
  "Transaction.completedAt (fst (createTransaction t ins s)) = None"
  "Transaction.type (fst (createTransaction t ins s)) = InsertTransaction.type ins"
  "Transaction.amount (fst (createTransaction t ins s)) = InsertTransaction.amount ins"
  "Transaction.jobId (fst (createTransaction t ins s)) = InsertTransaction.jobId ins"
  "Transaction.id (fst (createTransaction t ins s)) = UUID (uuidSeed s)"
  by (simp_all add: createTransaction_def randomUUID_def Let_def)

lemma tx_appends:
  "storeInv s \<Longrightarrow> transactions (snd (createTransaction t ins s))
     = transactions s @ [(UUID (uuidSeed s), fst (createTransaction t ins s))]"
  by (simp add: createTransaction_def randomUUID_def Let_def storeInv_def keys_of_def update_issued)

lemma tx_inv: "storeInv s \<Longrightarrow> storeInv (snd (createTransaction t ins s))"
  by (auto simp: createTransaction_def randomUUID_def Let_def storeInv_def keys_of_def
        update_issued issued_Suc elim: issued_mono)

subsection \<open>The other store operations\<close>

lemma createJob_effect:
  "transactions (snd (createJob t ins s)) = transactions s"
  "activityLogs (snd (createJob t ins s)) = activityLogs s"
  "MemStorage.balance (snd (createJob t ins s)) = MemStorage.balance s"
  "MemStorage.totalEarnings (snd (createJob t ins s)) = MemStorage.totalEarnings s"
  "uuidSeed (snd (createJob t ins s)) = Suc (uuidSeed s)"
  "jobs (snd (createJob t ins s)) = AList.update (UUID (uuidSeed s)) (fst (createJob t ins s)) (jobs s)"
  "Job.id (fst (createJob t ins s)) = UUID (uuidSeed s)"
  "Job.status (fst (createJob t ins s)) = ''queued''"
  "Job.completedAt (fst (createJob t ins s)) = None"
  by (simp_all add: createJob_def randomUUID_def Let_def)

lemma createJob_inv: "storeInv s \<Longrightarrow> storeInv (snd (createJob t ins s))"
  by (auto simp: createJob_def randomUUID_def Let_def storeInv_def keys_of_def
        intro: job_keys_update elim: issued_mono)

lemma updateJob_effect:
  "transactions (snd (updateJob jid u s)) = transactions s"
  "activityLogs (snd (updateJob jid u s)) = activityLogs s"
  "MemStorage.balance (snd (updateJob jid u s)) = MemStorage.balance s"
  "MemStorage.totalEarnings (snd (updateJob jid u s)) = MemStorage.totalEarnings s"
  "uuidSeed (snd (updateJob jid u s)) = uuidSeed s"
  by (simp_all add: updateJob_def split: option.splits)

lemma updateJob_jobs:
  "map_of (jobs s) jid = Some j \<Longrightarrow> jobs (snd (updateJob jid u s)) = AList.update jid (u j) (jobs s)"
  by (simp add: updateJob_def)

lemma updateJob_inv:
  "storeInv s \<Longrightarrow> (\<And>j. Job.id (u j) = Job.id j) \<Longrightarrow> storeInv (snd (updateJob jid u s))"
  by (auto simp: updateJob_def storeInv_def keys_of_def split: option.splits
        intro!: job_keys_update dest: job_keys_map_of)

lemma deleteJob_effect:
  "transactions (deleteJob jid s) = transactions s"
  "activityLogs (deleteJob jid s) = activityLogs s"
  "MemStorage.balance (deleteJob jid s) = MemStorage.balance s"
  "MemStorage.totalEarnings (deleteJob jid s) = MemStorage.totalEarnings s"
  "uuidSeed (deleteJob jid s) = uuidSeed s"
  "jobs (deleteJob jid s) = AList.delete jid (jobs s)"
  by (simp_all add: deleteJob_def)

lemma deleteJob_inv: "storeInv s \<Longrightarrow> storeInv (deleteJob jid s)"
  by (auto simp: deleteJob_def storeInv_def keys_of_def intro: job_keys_delete)

lemma createPlatform_effect:
  "transactions (snd (createPlatform ins s)) = transactions s"
  "activityLogs (snd (createPlatform ins s)) = activityLogs s"
  "jobs (snd (createPlatform ins s)) = jobs s"
  "MemStorage.balance (snd (createPlatform ins s)) = MemStorage.balance s"
  "MemStorage.totalEarnings (snd (createPlatform ins s)) = MemStorage.totalEarnings s"
  "uuidSeed (snd (createPlatform ins s)) = Suc (uuidSeed s)"
  by (simp_all add: createPlatform_def randomUUID_def Let_def)

lemma createPlatform_inv: "storeInv s \<Longrightarrow> storeInv (snd (createPlatform ins s))"
  by (auto simp: createPlatform_def randomUUID_def Let_def storeInv_def keys_of_def
        elim: issued_mono)

lemma deletePlatform_effect:
  "transactions (deletePlatform pid s) = transactions s"
  "activityLogs (deletePlatform pid s) = activityLogs s"
  "jobs (deletePlatform pid s) = jobs s"
  "MemStorage.balance (deletePlatform pid s) = MemStorage.balance s"
  "MemStorage.totalEarnings (deletePlatform pid s) = MemStorage.totalEarnings s"
  "uuidSeed (deletePlatform pid s) = uuidSeed s"
  by (simp_all add: deletePlatform_def)

lemma deletePlatform_inv: "storeInv s \<Longrightarrow> storeInv (deletePlatform pid s)"
  by (simp add: deletePlatform_def storeInv_def keys_of_def)

lemma setSetting_effect:
  "transactions (snd (setSetting k v s)) = transactions s"
  "activityLogs (snd (setSetting k v s)) = activityLogs s"
  "jobs (snd (setSetting k v s)) = jobs s"
  "MemStorage.balance (snd (setSetting k v s)) = MemStorage.balance s"
  "MemStorage.totalEarnings (snd (setSetting k v s)) = MemStorage.totalEarnings s"
  by (simp_all add: setSetting_def randomUUID_def Let_def split: option.splits)

lemma setSetting_inv: "storeInv s \<Longrightarrow> storeInv (snd (setSetting k v s))"
  by (auto simp: setSetting_def randomUUID_def Let_def storeInv_def keys_of_def
        split: option.splits elim: issued_mono)

lemma updateUserBalance_effect:
  "transactions (updateUserBalance uid a s) = transactions s"
  "activityLogs (updateUserBalance uid a s) = activityLogs s"
  "jobs (updateUserBalance uid a s) = jobs s"
  "uuidSeed (updateUserBalance uid a s) = uuidSeed s"
  "MemStorage.balance (updateUserBalance uid a s) = fadd (MemStorage.balance s) a"
  "MemStorage.totalEarnings (updateUserBalance uid a s)
     = (if fgt a (Fin 0) then fadd (MemStorage.totalEarnings s) a
        else MemStorage.totalEarnings s)"
  by (simp_all add: updateUserBalance_def Let_def split: option.splits)

lemma updateUserBalance_inv: "storeInv s \<Longrightarrow> storeInv (updateUserBalance uid a s)"
  by (simp add: storeInv_def updateUserBalance_effect)

subsection \<open>The handlers\<close>

lemmas effects = log_keeps tx_keeps createJob_effect updateJob_effect deleteJob_effect
  createPlatform_effect deletePlatform_effect setSetting_effect updateUserBalance_effect

lemmas invs = log_inv tx_inv createJob_inv updateJob_inv deleteJob_inv createPlatform_inv
  deletePlatform_inv setSetting_inv updateUserBalance_inv

lemma selectOperation_status [simp]:
  "selectOperation (j\<lparr>Job.status := x\<rparr>) = selectOperation j"
  by (simp add: selectOperation_def Let_def)

lemma process_inv: "storeInv s \<Longrightarrow> storeInv (snd (post_api_jobs_process e jid s))"
  by (simp add: post_api_jobs_process_def Let_def split_def invs
        split: option.splits sum.splits ai_outcome.splits)

lemma handle_inv: "storeInv s \<Longrightarrow> storeInv (snd (handle e r s))"
  by (cases r)
     (simp_all add: process_inv get_api_stats_def post_api_jobs_def delete_api_jobs_def
        post_api_platforms_def delete_api_platforms_def post_api_withdrawals_def
        post_api_settings_auto_process_def Let_def split_def invs split: option.splits)

lemma grows_refl: "grows s s"
  by (simp add: grows_def values_of_def)

lemma grows_same:
  "grows s s1 \<Longrightarrow> transactions s2 = transactions s1
   \<Longrightarrow> MemStorage.balance s2 = MemStorage.balance s1 \<Longrightarrow> grows s s2"
  by (simp add: grows_def)

lemma grows_one:
  assumes "grows s s1" "transactions s2 = transactions s1 @ [(k, t)]" "freshlyCreated t"
    and "MemStorage.balance s2 = applyTransaction (MemStorage.balance s1) t"
  shows "grows s s2"
proof -
  from assms(1) obtain new where new: "transactions s1 = transactions s @ new"
    "list_all freshlyCreated (values_of new)"
    "MemStorage.balance s1 = foldl applyTransaction (MemStorage.balance s) (values_of new)"
    by (auto simp: grows_def)
  have "transactions s2 = transactions s @ (new @ [(k, t)])"
    using assms(2) new(1) by simp
  moreover have "list_all freshlyCreated (values_of (new @ [(k, t)]))"
    using new(2) assms(3) by (simp add: values_of_def)
  moreover have "MemStorage.balance s2
      = foldl applyTransaction (MemStorage.balance s) (values_of (new @ [(k, t)]))"
    using new(3) assms(4) by (simp add: values_of_def)
  ultimately show ?thesis unfolding grows_def by blast
qed

lemma freshly_tx: "freshlyCreated (fst (createTransaction t ins s))"
  by (simp add: freshlyCreated_def tx_fields)

lemma grows_log: "grows s s1 \<Longrightarrow> grows s (snd (createActivityLog t ins s1))"
  by (erule grows_same) (simp_all add: effects)

lemma grows_updateJob: "grows s s1 \<Longrightarrow> grows s (snd (updateJob jid u s1))"
  by (erule grows_same) (simp_all add: effects)

lemma grows_earning:
  assumes "grows s s1" "storeInv s1" "InsertTransaction.type ins = ''earning''"
    and "InsertTransaction.amount ins = a"
  shows "grows s (updateUserBalance uid a (snd (createTransaction t ins s1)))"
  using assms(1)
proof (rule grows_one)
  show "transactions (updateUserBalance uid a (snd (createTransaction t ins s1)))
      = transactions s1 @ [(UUID (uuidSeed s1), fst (createTransaction t ins s1))]"
    using assms(2) by (simp add: effects tx_appends)
  show "freshlyCreated (fst (createTransaction t ins s1))" by (rule freshly_tx)
  show "MemStorage.balance (updateUserBalance uid a (snd (createTransaction t ins s1)))
      = applyTransaction (MemStorage.balance s1) (fst (createTransaction t ins s1))"
    using assms(3,4) by (simp add: effects tx_balance applyTransaction_def tx_fields)
qed

lemma grows_withdrawal:
  assumes "grows s s1" "storeInv s1" "InsertTransaction.type ins = ''withdrawal''"
  shows "grows s (snd (createTransaction t ins s1))"
  using assms(1)
proof (rule grows_one)
  show "transactions (snd (createTransaction t ins s1))
      = transactions s1 @ [(UUID (uuidSeed s1), fst (createTransaction t ins s1))]"
    using assms(2) by (simp add: tx_appends)
  show "freshlyCreated (fst (createTransaction t ins s1))" by (rule freshly_tx)
  show "MemStorage.balance (snd (createTransaction t ins s1))
      = applyTransaction (MemStorage.balance s1) (fst (createTransaction t ins s1))"
    using assms(3) by (simp add: tx_balance applyTransaction_def tx_fields)
qed

lemma process_grows: "storeInv s \<Longrightarrow> grows s (snd (post_api_jobs_process e jid s))"
  by (auto simp: post_api_jobs_process_def Let_def split_def
        split: option.splits sum.splits ai_outcome.splits
        intro!: grows_log grows_earning grows_updateJob grows_refl invs)

lemma handle_grows: "storeInv s \<Longrightarrow> grows s (snd (handle e r s))"
  by (cases r)
     (auto simp: process_grows get_api_stats_def post_api_jobs_def delete_api_jobs_def
        post_api_platforms_def delete_api_platforms_def post_api_withdrawals_def
        post_api_settings_auto_process_def Let_def split_def split: option.splits
        intro!: grows_log grows_withdrawal grows_refl
        intro: grows_same [OF grows_refl] simp: effects)

subsection \<open>The demo data\<close>

lemma demoJob_effect:
  "transactions (demoJob rnd t p i s) = transactions s"
  "activityLogs (demoJob rnd t p i s) = activityLogs s"
  "MemStorage.balance (demoJob rnd t p i s) = MemStorage.balance s"
  "MemStorage.totalEarnings (demoJob rnd t p i s) = MemStorage.totalEarnings s"
  "uuidSeed (demoJob rnd t p i s) = Suc (uuidSeed s)"
  by (simp_all add: demoJob_def randomUUID_def Let_def)

lemma demoJobRecord_id [simp]: "Job.id (demoJobRecord rnd t p jid i) = jid"
  by (simp add: demoJobRecord_def Let_def)

lemma demoJob_inv: "storeInv s \<Longrightarrow> storeInv (demoJob rnd t p i s)"
  by (auto simp: demoJob_def randomUUID_def Let_def storeInv_def keys_of_def
        intro: job_keys_update elim: issued_mono)

lemma demoTransaction_effect:
  "jobs (demoTransaction rnd t i s) = jobs s"
  "activityLogs (demoTransaction rnd t i s) = activityLogs s"
  "MemStorage.balance (demoTransaction rnd t i s) = MemStorage.balance s"
  "MemStorage.totalEarnings (demoTransaction rnd t i s) = MemStorage.totalEarnings s"
  "uuidSeed (demoTransaction rnd t i s) = Suc (uuidSeed s)"
  by (simp_all add: demoTransaction_def randomUUID_def Let_def)

lemma demoTransaction_inv: "storeInv s \<Longrightarrow> storeInv (demoTransaction rnd t i s)"
  by (auto simp: demoTransaction_def randomUUID_def Let_def storeInv_def keys_of_def
        update_issued issued_Suc elim: issued_mono)

lemma demoTransaction_appends:
  "storeInv s \<Longrightarrow>
     transactions (demoTransaction rnd t i s)
       = transactions s @ [(UUID (uuidSeed s),
           demoTransactionRecord rnd t (keys_of (jobs s)) (UUID (uuidSeed s)) i)]"
  by (simp add: demoTransaction_def randomUUID_def Let_def storeInv_def keys_of_def
        update_issued)

lemma demoTransactionRecord_kind:
  "(Transaction.type (demoTransactionRecord rnd t jk tid i),
    Transaction.status (demoTransactionRecord rnd t jk tid i),
    Transaction.amount (demoTransactionRecord rnd t jk tid i))
   = (if i mod 4 \<noteq> 0
      then (''earning'', if i < 12 then ''completed'' else ''pending'',
            toFixed 4 (fadd (fmul (Fin (rnd (8 + i))) (rd 0.05)) (rd 0.01)))
      else (''withdrawal'', if i < 12 then ''completed'' else ''pending'',
            toFixed 2 (fadd (fmul (Fin (rnd (8 + i))) (Fin 10)) (Fin 5))))"
  by (simp add: demoTransactionRecord_def Let_def)

lemma demoTransaction_kinds:
  "storeInv s \<Longrightarrow>
     map (\<lambda>x. (Transaction.type x, Transaction.status x, Transaction.amount x))
         (values_of (transactions (demoTransaction rnd t i s)))
     = map (\<lambda>x. (Transaction.type x, Transaction.status x, Transaction.amount x))
         (values_of (transactions s))
       @ [if i mod 4 \<noteq> 0
          then (''earning'', if i < 12 then ''completed'' else ''pending'',
                toFixed 4 (fadd (fmul (Fin (rnd (8 + i))) (rd 0.05)) (rd 0.01)))
          else (''withdrawal'', if i < 12 then ''completed'' else ''pending'',
                toFixed 2 (fadd (fmul (Fin (rnd (8 + i))) (Fin 10)) (Fin 5)))]"
  by (simp only: demoTransaction_appends values_of_def map_append list.map snd_conv
        demoTransactionRecord_kind)

lemma demoActivityLog_effect:
  "jobs (demoActivityLog t i s) = jobs s"
  "transactions (demoActivityLog t i s) = transactions s"
  "MemStorage.balance (demoActivityLog t i s) = MemStorage.balance s"
  "MemStorage.totalEarnings (demoActivityLog t i s) = MemStorage.totalEarnings s"
  "uuidSeed (demoActivityLog t i s) = Suc (uuidSeed s)"
  by (simp_all add: demoActivityLog_def randomUUID_def Let_def)

lemma demoActivityLog_inv: "storeInv s \<Longrightarrow> storeInv (demoActivityLog t i s)"
  by (auto simp: demoActivityLog_def randomUUID_def Let_def storeInv_def keys_of_def
        update_issued issued_Suc elim: issued_mono)

lemma fold_demoJob:
  "transactions (fold (demoJob rnd t p) is s) = transactions s"
  "activityLogs (fold (demoJob rnd t p) is s) = activityLogs s"
  "MemStorage.balance (fold (demoJob rnd t p) is s) = MemStorage.balance s"
  "MemStorage.totalEarnings (fold (demoJob rnd t p) is s) = MemStorage.totalEarnings s"
  "uuidSeed (fold (demoJob rnd t p) is s) = uuidSeed s + length is"
  by (induction "is" arbitrary: s) (simp_all add: demoJob_effect)

lemma fold_demoJob_inv: "storeInv s \<Longrightarrow> storeInv (fold (demoJob rnd t p) is s)"
  by (induction "is" arbitrary: s) (simp_all add: demoJob_inv)

lemma fold_demoTransaction:
  "jobs (fold (demoTransaction rnd t) is s) = jobs s"
  "activityLogs (fold (demoTransaction rnd t) is s) = activityLogs s"
  "MemStorage.balance (fold (demoTransaction rnd t) is s) = MemStorage.balance s"
  "MemStorage.totalEarnings (fold (demoTransaction rnd t) is s) = MemStorage.totalEarnings s"
  "uuidSeed (fold (demoTransaction rnd t) is s) = uuidSeed s + length is"
  by (induction "is" arbitrary: s) (simp_all add: demoTransaction_effect)

lemma fold_demoTransaction_inv:
  "storeInv s \<Longrightarrow> storeInv (fold (demoTransaction rnd t) is s)"
  by (induction "is" arbitrary: s) (simp_all add: demoTransaction_inv)

lemma fold_demoTransaction_kinds:
  "storeInv s \<Longrightarrow>
     map (\<lambda>x. (Transaction.type x, Transaction.status x, Transaction.amount x))
         (values_of (transactions (fold (demoTransaction rnd t) is s)))
     = map (\<lambda>x. (Transaction.type x, Transaction.status x, Transaction.amount x))
         (values_of (transactions s))
       @ map (\<lambda>i. if i mod 4 \<noteq> 0
                 then (''earning'', if i < 12 then ''completed'' else ''pending'',
                       toFixed 4 (fadd (fmul (Fin (rnd (8 + i))) (rd 0.05)) (rd 0.01)))
                 else (''withdrawal'', if i < 12 then ''completed'' else ''pending'',
                       toFixed 2 (fadd (fmul (Fin (rnd (8 + i))) (Fin 10)) (Fin 5)))) is"
proof (induction "is" arbitrary: s)
  case Nil
  show ?case by simp
next
  case (Cons i "is")
  from Cons.prems have "storeInv (demoTransaction rnd t i s)" by (rule demoTransaction_inv)
  from Cons.IH [OF this] show ?case
    by (simp only: fold_simps demoTransaction_kinds [OF Cons.prems] list.map append_assoc
          append_Cons append_Nil)
qed

lemma fold_demoActivityLog:
  "jobs (fold (demoActivityLog t) is s) = jobs s"
  "transactions (fold (demoActivityLog t) is s) = transactions s"
  "MemStorage.balance (fold (demoActivityLog t) is s) = MemStorage.balance s"
  "MemStorage.totalEarnings (fold (demoActivityLog t) is s) = MemStorage.totalEarnings s"
  "uuidSeed (fold (demoActivityLog t) is s) = uuidSeed s + length is"
  by (induction "is" arbitrary: s) (simp_all add: demoActivityLog_effect)

lemma fold_demoActivityLog_inv:
  "storeInv s \<Longrightarrow> storeInv (fold (demoActivityLog t) is s)"
  by (induction "is" arbitrary: s) (simp_all add: demoActivityLog_inv)

lemmas fold_demo = fold_demoJob fold_demoTransaction fold_demoActivityLog

lemma init_balance:
  "MemStorage.balance (initDemoData rnd t0) = rd 25.4523"
  "MemStorage.totalEarnings (initDemoData rnd t0) = rd 156.8912"
  by (simp_all add: initDemoData_def Let_def randomUUID_def fold_demo emptyStorage_def)

lemma init_uuidSeed: "uuidSeed (initDemoData rnd t0) = 44"
  by (simp add: initDemoData_def Let_def randomUUID_def fold_demo emptyStorage_def)

lemma init_inv: "storeInv (initDemoData rnd t0)"
  unfolding initDemoData_def Let_def randomUUID_def split_conv
  by (intro fold_demoActivityLog_inv fold_demoTransaction_inv fold_demoJob_inv)
     (simp add: storeInv_def emptyStorage_def keys_of_def)

lemma init_kinds:
  "map (\<lambda>x. (Transaction.type x, Transaction.status x, Transaction.amount x))
       (values_of (transactions (initDemoData rnd t0)))
   = map (\<lambda>i. if i mod 4 \<noteq> 0
             then (''earning'', if i < 12 then ''completed'' else ''pending'',
                   toFixed 4 (fadd (fmul (Fin (rnd (8 + i))) (rd 0.05)) (rd 0.01)))
             else (''withdrawal'', if i < 12 then ''completed'' else ''pending'',
                   toFixed 2 (fadd (fmul (Fin (rnd (8 + i))) (Fin 10)) (Fin 5)))) [0..<15]"
proof -
  let ?s2 = "emptyStorage\<lparr>MemStorage.balance := rd 25.4523,
      MemStorage.totalEarnings := rd 156.8912,
      uuidSeed := Suc 0,
      platforms := AList.update (UUID 0)
        \<lparr>Platform.id = UUID 0, name = ''2Captcha'', apiKey = Some ''demo-key-hidden'',
         apiUrl = ''https://api.2captcha.com'', status = ''connected'',
         jobsCompleted = 1245, successRate = 94.5\<rparr> []\<rparr>"
  let ?s3 = "fold (demoJob rnd t0 (UUID 0)) [0..<8] ?s2"
  have tx: "transactions (initDemoData rnd t0)
      = transactions (fold (demoTransaction rnd t0) [0..<15] ?s3)"
    by (simp add: initDemoData_def Let_def randomUUID_def fold_demo emptyStorage_def)
  have inv: "storeInv ?s3"
    by (rule fold_demoJob_inv) (simp add: storeInv_def emptyStorage_def keys_of_def)
  have nil: "transactions ?s3 = []"
    by (simp add: fold_demo emptyStorage_def)
  show ?thesis
    unfolding tx fold_demoTransaction_kinds [OF inv] nil by (simp add: values_of_def)
qed

lemma init_length: "length (transactions (initDemoData rnd t0)) = 15"
  using arg_cong [OF init_kinds, of length rnd t0] by (simp add: values_of_def)

lemma init_jobs:
  "jobs (initDemoData rnd t0) =
     [(UUID 1, demoJobRecord rnd t0 (UUID 0) (UUID 1) 0),
      (UUID 2, demoJobRecord rnd t0 (UUID 0) (UUID 2) 1),
      (UUID 3, demoJobRecord rnd t0 (UUID 0) (UUID 3) 2),
      (UUID 4, demoJobRecord rnd t0 (UUID 0) (UUID 4) 3),
      (UUID 5, demoJobRecord rnd t0 (UUID 0) (UUID 5) 4),
      (UUID 6, demoJobRecord rnd t0 (UUID 0) (UUID 6) 5),
      (UUID 7, demoJobRecord rnd t0 (UUID 0) (UUID 7) 6),
      (UUID 8, demoJobRecord rnd t0 (UUID 0) (UUID 8) 7)]"
proof -
  have up: "[0..<8] = [0, 1, 2, 3, 4, 5, 6, 7]"
    by (simp add: upt_rec)
  let ?s2 = "emptyStorage\<lparr>MemStorage.balance := rd 25.4523,
      MemStorage.totalEarnings := rd 156.8912,
      uuidSeed := Suc 0,
      platforms := AList.update (UUID 0)
        \<lparr>Platform.id = UUID 0, name = ''2Captcha'', apiKey = Some ''demo-key-hidden'',
         apiUrl = ''https://api.2captcha.com'', status = ''connected'',
         jobsCompleted = 1245, successRate = 94.5\<rparr> []\<rparr>"
  have "jobs (initDemoData rnd t0) = jobs (fold (demoJob rnd t0 (UUID 0)) [0..<8] ?s2)"
    by (simp add: initDemoData_def fold_demo Let_def randomUUID_def emptyStorage_def)
  also have "\<dots> = [(UUID 1, demoJobRecord rnd t0 (UUID 0) (UUID 1) 0),
      (UUID 2, demoJobRecord rnd t0 (UUID 0) (UUID 2) 1),
      (UUID 3, demoJobRecord rnd t0 (UUID 0) (UUID 3) 2),
      (UUID 4, demoJobRecord rnd t0 (UUID 0) (UUID 4) 3),
      (UUID 5, demoJobRecord rnd t0 (UUID 0) (UUID 5) 4),
      (UUID 6, demoJobRecord rnd t0 (UUID 0) (UUID 6) 5),
      (UUID 7, demoJobRecord rnd t0 (UUID 0) (UUID 7) 6),
      (UUID 8, demoJobRecord rnd t0 (UUID 0) (UUID 8) 7)]"
    by (simp add: up demoJob_def Let_def randomUUID_def emptyStorage_def eval_nat_numeral)
  finally show ?thesis .
qed

lemma init_getJob:
  "getJob (UUID 1) (initDemoData rnd t0) = Some (demoJobRecord rnd t0 (UUID 0) (UUID 1) 0)"
  "getJob (UUID 3) (initDemoData rnd t0) = Some (demoJobRecord rnd t0 (UUID 0) (UUID 3) 2)"
  "getJob (UUID 4) (initDemoData rnd t0) = Some (demoJobRecord rnd t0 (UUID 0) (UUID 4) 3)"
  by (simp_all add: getJob_def init_jobs)

lemma demo_job_fields:
  "Job.status (demoJobRecord rnd t0 p jid 2) = ''completed''"
  "Job.completedAt (demoJobRecord rnd t0 p jid 2) = Some t0"
  "Job.type (demoJobRecord rnd t0 p jid 3) = ''typing''"
  "Job.data (demoJobRecord rnd t0 p jid 3) = Obj [(''text'', Str ''Sample text for typing job'')]"
  "Job.type (demoJobRecord rnd t0 p jid 0) = ''captcha''"
  "Job.data (demoJobRecord rnd t0 p jid 0)
     = Obj [(''imageUrl'', Str ''https://via.placeholder.com/200x80?text=CAPTCHA'')]"
  "Job.reward (demoJobRecord rnd t0 p jid 0)
     = toFixed 4 (fadd (fmul (Fin (rnd 0)) (rd 0.05)) (rd 0.01))"
  by (simp_all add: demoJobRecord_def Let_def jobTypes_def statuses_def)

lemma reachable_inv: "reachable s \<Longrightarrow> storeInv s"
  by (induction rule: reachable.induct) (simp_all add: init_inv handle_inv)

lemma reachable_serve: "reachable s \<Longrightarrow> reachable (serve rs s)"
  by (induction rs s rule: serve.induct) (simp_all add: reachable.request)

lemma reachable_ledger:
  "reachable s \<Longrightarrow>
     15 \<le> length (transactions s)
     \<and> MemStorage.balance s
         = foldl applyTransaction (rd 25.4523) (drop 15 (values_of (transactions s)))
     \<and> list_all freshlyCreated (drop 15 (values_of (transactions s)))"
proof (induction rule: reachable.induct)
  case (start rnd t0)
  show ?case
    by (simp add: init_length init_balance values_of_def)
next
  case (request s e r)
  from request.hyps have "storeInv s" by (rule reachable_inv)
  then have "grows s (snd (handle e r s))" by (rule handle_grows)
  then obtain new where new: "transactions (snd (handle e r s)) = transactions s @ new"
    "list_all freshlyCreated (values_of new)"
    "MemStorage.balance (snd (handle e r s))
       = foldl applyTransaction (MemStorage.balance s) (values_of new)"
    by (auto simp: grows_def)
  with request.IH show ?case
    by (simp add: values_of_def)
qed

lemma sort_key_Nil_iff: "sort_key f xs = [] \<longleftrightarrow> xs = []"
  by (metis length_sort length_0_conv)

lemma stats_fields:
  "DashboardStats.balance (getDashboardStats day s) = MemStorage.balance s"
  "DashboardStats.totalEarnings (getDashboardStats day s) = MemStorage.totalEarnings s"
  "DashboardStats.pendingWithdrawals (getDashboardStats day s)
     = fsum (pendingWithdrawalAmounts s)"
  "DashboardStats.successRate (getDashboardStats day s)
     = (if jobs s = [] then 0
        else of_nat (length (completedJobs s)) / of_nat (length (jobs s)) * 100)"
  by (simp_all add: getDashboardStats_def Let_def foldl_map fsum_def
        pendingWithdrawalAmounts_def
        getJobs_def completedJobs_def values_of_def filter_sort sort_key_Nil_iff)

subsection \<open>Processing a job\<close>

lemma process_returns:
  assumes "reachable s" "getJob jid s = Some job0" "openaiModule e = Some ai"
    and "selectOperation job0 = Inr c" "ai c = Returns res"
  defines "r \<equiv> fst (post_api_jobs_process e jid s)"
    and "s' \<equiv> snd (post_api_jobs_process e jid s)"
  shows "r = \<lparr>code = 200, body = SuccessResultBody res, calls = [c]\<rparr>"
    and "getJob jid s' = Some (job0\<lparr>Job.status := ''completed'', Job.result := Some res,
                                    Job.completedAt := Some (now e)\<rparr>)"
    and "transactions s' = transactions s @
           [(UUID (uuidSeed s),
             \<lparr>Transaction.id = UUID (uuidSeed s), jobId = Some jid, type = ''earning'',
              amount = Job.reward job0, status = ''pending'', paymentMethod = None,
              paymentAddress = None, transactionHash = None, createdAt = now e,
              completedAt = None\<rparr>)]"
    and "MemStorage.balance s' = fadd (MemStorage.balance s) (Job.reward job0)"
    and "MemStorage.totalEarnings s'
           = (if fgt (Job.reward job0) (Fin 0)
              then fadd (MemStorage.totalEarnings s) (Job.reward job0)
              else MemStorage.totalEarnings s)"
    and "activityLogs s' = activityLogs s @
           [(UUID (Suc (uuidSeed s)),
             \<lparr>ActivityLog.id = UUID (Suc (uuidSeed s)), jobId = Some jid,
              action = (if Job.type job0 = ''captcha'' then ''CAPTCHA solved''
                        else ''Typing job completed''),
              details = Some [Lit ''Earned $'', Amount (Job.reward job0)],
              status = ''success'', createdAt = now e\<rparr>)]"
proof -
  have inv: "storeInv s" using assms(1) by (rule reachable_inv)
  have jid: "Job.id job0 = jid"
    using inv assms(2) by (auto simp: storeInv_def getJob_def dest: job_keys_map_of)
  have m: "map_of (jobs s) jid = Some job0" using assms(2) by (simp add: getJob_def)
  let ?s1 = "snd (updateJob jid (\<lambda>j. j\<lparr>Job.status := ''processing''\<rparr>) s)"
  let ?u = "\<lambda>j. j\<lparr>Job.status := ''completed'', Job.result := Some res,
                     Job.completedAt := Some (now e)\<rparr>"
  let ?s2 = "snd (updateJob jid ?u ?s1)"
  have m1: "map_of (jobs ?s1) jid = Some (job0\<lparr>Job.status := ''processing''\<rparr>)"
    using m by (simp add: updateJob_def update_conv')
  have j2: "jobs ?s2 = AList.update jid (?u job0) (jobs ?s1)"
    using m1 by (simp add: updateJob_def)
  have inv2: "storeInv ?s2" using inv by (simp add: invs)
  have seed2: "uuidSeed ?s2 = uuidSeed s" by (simp add: effects)
  show "r = \<lparr>code = 200, body = SuccessResultBody res, calls = [c]\<rparr>"
    using assms(2-5) by (simp add: r_def post_api_jobs_process_def Let_def split_def)
  have s': "s' = snd (createActivityLog (now e)
       \<lparr>InsertActivityLog.jobId = Some jid,
        action = (if Job.type job0 = ''captcha'' then ''CAPTCHA solved''
                  else ''Typing job completed''),
        details = Some [Lit ''Earned $'', Amount (Job.reward job0)],
        status = ''success''\<rparr>
       (updateUserBalance (Name ''default'') (Job.reward job0)
         (snd (createTransaction (now e)
            \<lparr>InsertTransaction.jobId = Some jid, type = ''earning'',
             amount = Job.reward job0, paymentMethod = None, paymentAddress = None\<rparr>
            ?s2))))"
    using assms(2-5) jid by (simp add: s'_def post_api_jobs_process_def Let_def split_def)
  show "getJob jid s' = Some (?u job0)"
    by (simp add: s' getJob_def effects j2 update_conv')
  show "transactions s' = transactions s @
           [(UUID (uuidSeed s),
             \<lparr>Transaction.id = UUID (uuidSeed s), jobId = Some jid, type = ''earning'',
              amount = Job.reward job0, status = ''pending'', paymentMethod = None,
              paymentAddress = None, transactionHash = None, createdAt = now e,
              completedAt = None\<rparr>)]"
    using inv2 by (simp add: s' effects tx_appends seed2)
       (simp add: createTransaction_def randomUUID_def Let_def seed2)
  show "MemStorage.balance s' = fadd (MemStorage.balance s) (Job.reward job0)"
    by (simp add: s' effects tx_balance)
  show "MemStorage.totalEarnings s'
           = (if fgt (Job.reward job0) (Fin 0)
              then fadd (MemStorage.totalEarnings s) (Job.reward job0)
              else MemStorage.totalEarnings s)"
    by (simp add: s' effects)
  have inv4: "storeInv (updateUserBalance (Name ''default'') (Job.reward job0)
         (snd (createTransaction (now e)
            \<lparr>InsertTransaction.jobId = Some jid, type = ''earning'',
             amount = Job.reward job0, paymentMethod = None, paymentAddress = None\<rparr>
            ?s2)))"
    using inv2 by (simp add: invs)
  show "activityLogs s' = activityLogs s @
           [(UUID (Suc (uuidSeed s)),
             \<lparr>ActivityLog.id = UUID (Suc (uuidSeed s)), jobId = Some jid,
              action = (if Job.type job0 = ''captcha'' then ''CAPTCHA solved''
                        else ''Typing job completed''),
              details = Some [Lit ''Earned $'', Amount (Job.reward job0)],
              status = ''success'', createdAt = now e\<rparr>)]"
    unfolding s' log_appends [OF inv4]
    by (simp add: effects seed2 createActivityLog_def randomUUID_def Let_def)
qed

lemma process_throws:
  assumes "reachable s" "getJob jid s = Some job0" "openaiModule e = Some ai"
    and "(case selectOperation job0 of Inl m \<Rightarrow> ThrowsError m | Inr c \<Rightarrow> ai c) = out"
    and "\<And>res. out \<noteq> Returns res"
  defines "msg \<equiv> (case out of ThrowsError m \<Rightarrow> m | _ \<Rightarrow> ''Processing failed'')"
  shows "fst (post_api_jobs_process e jid s)
           = \<lparr>code = 500, body = ErrorBody msg,
              calls = (case selectOperation job0 of Inl m \<Rightarrow> [] | Inr c \<Rightarrow> [c])\<rparr>"
    and "getJob jid (snd (post_api_jobs_process e jid s))
           = Some (job0\<lparr>Job.status := ''failed'', Job.errorMessage := Some msg,
                         Job.retryCount := Job.retryCount job0 + 1\<rparr>)"
    and "transactions (snd (post_api_jobs_process e jid s)) = transactions s"
    and "MemStorage.balance (snd (post_api_jobs_process e jid s)) = MemStorage.balance s"
    and "MemStorage.totalEarnings (snd (post_api_jobs_process e jid s))
           = MemStorage.totalEarnings s"
proof -
  have inv: "storeInv s" using assms(1) by (rule reachable_inv)
  have jid: "Job.id job0 = jid"
    using inv assms(2) by (auto simp: storeInv_def getJob_def dest: job_keys_map_of)
  have m: "map_of (jobs s) jid = Some job0" using assms(2) by (simp add: getJob_def)
  let ?s1 = "snd (updateJob jid (\<lambda>j. j\<lparr>Job.status := ''processing''\<rparr>) s)"
  have m1: "map_of (jobs ?s1) jid = Some (job0\<lparr>Job.status := ''processing''\<rparr>)"
    using m by (simp add: updateJob_def update_conv')
  show "fst (post_api_jobs_process e jid s)
           = \<lparr>code = 500, body = ErrorBody msg,
              calls = (case selectOperation job0 of Inl m \<Rightarrow> [] | Inr c \<Rightarrow> [c])\<rparr>"
    using assms(2-5)
    by (cases out; cases "selectOperation job0")
       (auto simp: msg_def post_api_jobs_process_def Let_def split_def)
  have s': "snd (post_api_jobs_process e jid s) = snd (createActivityLog (now e)
       \<lparr>InsertActivityLog.jobId = Some jid, action = ''Job failed'',
        details = Some [Lit msg], status = ''error''\<rparr>
       (snd (updateJob jid
          (\<lambda>j. j\<lparr>Job.status := ''failed'', Job.errorMessage := Some msg,
                  Job.retryCount := Job.retryCount job0 + 1\<rparr>) ?s1)))"
    using assms(2-5) jid
    by (cases out; cases "selectOperation job0")
       (auto simp: msg_def post_api_jobs_process_def Let_def split_def)
  show "getJob jid (snd (post_api_jobs_process e jid s))
           = Some (job0\<lparr>Job.status := ''failed'', Job.errorMessage := Some msg,
                         Job.retryCount := Job.retryCount job0 + 1\<rparr>)"
    using m1 by (simp add: s' getJob_def effects updateJob_def update_conv')
  show "transactions (snd (post_api_jobs_process e jid s)) = transactions s"
    by (simp add: s' effects)
  show "MemStorage.balance (snd (post_api_jobs_process e jid s)) = MemStorage.balance s"
    by (simp add: s' effects)
  show "MemStorage.totalEarnings (snd (post_api_jobs_process e jid s))
           = MemStorage.totalEarnings s"
    by (simp add: s' effects)
qed

lemma unsupported_select:
  "\<not> supportedCombination job \<Longrightarrow> \<exists>m \<in> set descriptiveErrors. selectOperation job = Inl m"
  by (auto simp: supportedCombination_def hasPayload_def selectOperation_def Let_def
        descriptiveErrors_def)

lemma supported_select:
  "supportedCombination job \<Longrightarrow> \<exists>c. selectOperation job = Inr c"
  by (auto simp: supportedCombination_def hasPayload_def selectOperation_def Let_def)

lemma demo_select:
  "selectOperation (demoJobRecord rnd t0 p jid 0)
     = Inr (SolveCaptchaImage (Str ''https://via.placeholder.com/200x80?text=CAPTCHA''))"
  "selectOperation (demoJobRecord rnd t0 p jid 2)
     = Inr (SolveCaptchaImage (Str ''https://via.placeholder.com/200x80?text=CAPTCHA''))"
  "selectOperation (demoJobRecord rnd t0 p jid 3) = Inl ''No typing data provided''"
  by (simp_all add: selectOperation_def demoJobRecord_def Let_def jobTypes_def)

lemma withdrawal_effect:
  fixes e :: env
  assumes "reachable s" "withdrawalRequestSchema d"
  defines "tx \<equiv> \<lparr>Transaction.id = UUID (uuidSeed s), jobId = None, type = ''withdrawal'',
              amount = WithdrawalRequest.amount d, status = ''pending'',
              paymentMethod = Some (WithdrawalRequest.paymentMethod d),
              paymentAddress = Some (WithdrawalRequest.paymentAddress d),
              transactionHash = None, createdAt = now e, completedAt = None\<rparr>"
  shows "fgt (WithdrawalRequest.amount d) (MemStorage.balance s) \<Longrightarrow>
           post_api_withdrawals e d s = (respond 400 (ErrorBody ''Insufficient balance''), s)"
    and "\<not> fgt (WithdrawalRequest.amount d) (MemStorage.balance s) \<Longrightarrow>
           fst (post_api_withdrawals e d s) = respond 201 (TransactionBody tx)"
    and "\<not> fgt (WithdrawalRequest.amount d) (MemStorage.balance s) \<Longrightarrow>
           transactions (snd (post_api_withdrawals e d s))
             = transactions s @ [(UUID (uuidSeed s), tx)]"
    and "\<not> fgt (WithdrawalRequest.amount d) (MemStorage.balance s) \<Longrightarrow>
           MemStorage.balance (snd (post_api_withdrawals e d s))
             = fsub (MemStorage.balance s) (WithdrawalRequest.amount d)"
    and "\<not> fgt (WithdrawalRequest.amount d) (MemStorage.balance s) \<Longrightarrow>
           activityLogs (snd (post_api_withdrawals e d s))
             = activityLogs s @
               [(UUID (Suc (uuidSeed s)),
                 \<lparr>ActivityLog.id = UUID (Suc (uuidSeed s)), jobId = None,
                  action = ''Withdrawal requested'',
                  details = Some [Lit ''$'', Amount (WithdrawalRequest.amount d),
                                  Lit '' via '', Lit (WithdrawalRequest.paymentMethod d)],
                  status = ''info'', createdAt = now e\<rparr>)]"
proof -
  have inv: "storeInv s" using assms(1) by (rule reachable_inv)
  let ?ins = "\<lparr>InsertTransaction.jobId = None, type = ''withdrawal'',
               amount = WithdrawalRequest.amount d,
               paymentMethod = Some (WithdrawalRequest.paymentMethod d),
               paymentAddress = Some (WithdrawalRequest.paymentAddress d)\<rparr>"
  have txv: "fst (createTransaction (now e) ?ins s) = tx"
    by (simp add: tx_def createTransaction_def randomUUID_def Let_def)
  have inv1: "storeInv (snd (createTransaction (now e) ?ins s))"
    using inv by (rule tx_inv)
  show "fgt (WithdrawalRequest.amount d) (MemStorage.balance s) \<Longrightarrow>
           post_api_withdrawals e d s = (respond 400 (ErrorBody ''Insufficient balance''), s)"
    using assms(2) by (simp add: post_api_withdrawals_def Let_def stats_fields)
  assume le: "\<not> fgt (WithdrawalRequest.amount d) (MemStorage.balance s)"
  have s': "post_api_withdrawals e d s =
      (respond 201 (TransactionBody tx),
       snd (createActivityLog (now e)
         \<lparr>InsertActivityLog.jobId = None, action = ''Withdrawal requested'',
          details = Some [Lit ''$'', Amount (WithdrawalRequest.amount d),
                          Lit '' via '', Lit (WithdrawalRequest.paymentMethod d)],
          status = ''info''\<rparr>
         (snd (createTransaction (now e) ?ins s))))"
    using assms(2) le
    by (simp add: post_api_withdrawals_def Let_def split_def stats_fields txv)
  show "fst (post_api_withdrawals e d s) = respond 201 (TransactionBody tx)"
    by (simp add: s')
  show "transactions (snd (post_api_withdrawals e d s))
             = transactions s @ [(UUID (uuidSeed s), tx)]"
    using inv by (simp add: s' effects tx_appends txv)
  show "MemStorage.balance (snd (post_api_withdrawals e d s))
             = fsub (MemStorage.balance s) (WithdrawalRequest.amount d)"
    by (simp add: s' effects tx_balance)
  show "activityLogs (snd (post_api_withdrawals e d s))
             = activityLogs s @
               [(UUID (Suc (uuidSeed s)),
                 \<lparr>ActivityLog.id = UUID (Suc (uuidSeed s)), jobId = None,
                  action = ''Withdrawal requested'',
                  details = Some [Lit ''$'', Amount (WithdrawalRequest.amount d),
                                  Lit '' via '', Lit (WithdrawalRequest.paymentMethod d)],
                  status = ''info'', createdAt = now e\<rparr>)]"
    unfolding s' snd_conv log_appends [OF inv1]
    by (simp add: effects createActivityLog_def randomUUID_def Let_def)
qed

lemma withdrawal_invalid:
  "\<not> withdrawalRequestSchema d \<Longrightarrow> post_api_withdrawals e d s = (respond 400 ZodErrorBody, s)"
  by (simp add: post_api_withdrawals_def)

lemma pending_after_withdrawal:
  assumes "reachable s" "InsertTransaction.type ins = ''withdrawal''"
  shows "pendingWithdrawalAmounts (snd (createTransaction t ins s))
     = pendingWithdrawalAmounts s @ [InsertTransaction.amount ins]"
  using reachable_inv [OF assms(1)] assms(2)
  by (simp add: pendingWithdrawalAmounts_def tx_appends values_of_def tx_fields)

lemma reachable_demo: "reachable demoStore"
  unfolding demoStore_def by (rule reachable.start)

lemma handle_keeps_transactions:
  assumes "reachable s"
  shows "take (length (transactions s)) (transactions (snd (handle e r s))) = transactions s"
proof -
  from assms have "grows s (snd (handle e r s))"
    by (intro handle_grows reachable_inv)
  then show ?thesis by (auto simp: grows_def)
qed

lemma upt15: "[0..<15] = [0, 1, 2, 3, 4, 5, 6, 7, 8, 9, 10, 11, 12, 13, 14]"
  by (simp add: upt_rec)

lemma zero_draw_amounts:
  "toFixed 4 (fadd (fmul (Fin 0) (rd 0.05)) (rd 0.01))
     = Fin (5764607523034235 / 576460752303423488)"
  "toFixed 2 (fadd (fmul (Fin 0) (Fin 10)) (Fin 5)) = Fin 5"
  by code_simp+

lemma demo_kinds:
  "map (\<lambda>x. (Transaction.type x, Transaction.status x, Transaction.amount x))
       (values_of (transactions demoStore))
   = [(''withdrawal'', ''completed'', Fin 5),
      (''earning'', ''completed'', Fin (5764607523034235 / 576460752303423488)),
      (''earning'', ''completed'', Fin (5764607523034235 / 576460752303423488)),
      (''earning'', ''completed'', Fin (5764607523034235 / 576460752303423488)),
      (''withdrawal'', ''completed'', Fin 5),
      (''earning'', ''completed'', Fin (5764607523034235 / 576460752303423488)),
      (''earning'', ''completed'', Fin (5764607523034235 / 576460752303423488)),
      (''earning'', ''completed'', Fin (5764607523034235 / 576460752303423488)),
      (''withdrawal'', ''completed'', Fin 5),
      (''earning'', ''completed'', Fin (5764607523034235 / 576460752303423488)),
      (''earning'', ''completed'', Fin (5764607523034235 / 576460752303423488)),
      (''earning'', ''completed'', Fin (5764607523034235 / 576460752303423488)),
      (''withdrawal'', ''pending'', Fin 5),
      (''earning'', ''pending'', Fin (5764607523034235 / 576460752303423488)),
      (''earning'', ''pending'', Fin (5764607523034235 / 576460752303423488))]"
  unfolding demoStore_def init_kinds upt15 list.map zeroDraws_def zero_draw_amounts
  by simp

lemma kinds_amounts:
  "map Transaction.amount (filter (\<lambda>t. Transaction.type t = ty) txs)
   = map (\<lambda>k. snd (snd k)) (filter (\<lambda>k. fst k = ty)
       (map (\<lambda>x. (Transaction.type x, Transaction.status x, Transaction.amount x)) txs))"
  by (induction txs) simp_all

lemma kinds_values:
  "map (\<lambda>t. finValue (Transaction.amount t)) (filter (\<lambda>t. Transaction.type t = ty) txs)
   = map (\<lambda>k. finValue (snd (snd k))) (filter (\<lambda>k. fst k = ty)
       (map (\<lambda>x. (Transaction.type x, Transaction.status x, Transaction.amount x)) txs))"
  by (induction txs) simp_all

lemma kinds_pending_list:
  "map Transaction.amount
     (filter (\<lambda>t. Transaction.type t = ''withdrawal'' \<and> Transaction.status t = ''pending'') txs)
   = map (\<lambda>k. snd (snd k)) (filter (\<lambda>k. fst k = ''withdrawal'' \<and> fst (snd k) = ''pending'')
       (map (\<lambda>x. (Transaction.type x, Transaction.status x, Transaction.amount x)) txs))"
  by (induction txs) simp_all

lemma kinds_pending:
  "pendingWithdrawalAmounts s
   = map (\<lambda>k. snd (snd k)) (filter (\<lambda>k. fst k = ''withdrawal'' \<and> fst (snd k) = ''pending'')
       (map (\<lambda>x. (Transaction.type x, Transaction.status x, Transaction.amount x))
          (values_of (transactions s))))"
  unfolding pendingWithdrawalAmounts_def by (rule kinds_pending_list)




lemma negative_job_stored:
  "getJob (UUID 44) storeWithNegativeJob
     = Some (fst (createJob (now envAnswering) negativeRewardJob demoStore))"
proof -
  have seed: "uuidSeed demoStore = 44" by (simp add: demoStore_def init_uuidSeed)
  show ?thesis
    by (simp add: storeWithNegativeJob_def post_api_jobs_def Let_def split_def getJob_def
          effects update_conv' seed)
qed

subsection \<open>Completed jobs\<close>

lemma update_all:
  "list_all (\<lambda>kj. P (snd kj)) al \<Longrightarrow> P v \<Longrightarrow> list_all (\<lambda>kj. P (snd kj)) (AList.update k v al)"
  by (induction al) auto

lemma delete_all:
  "list_all (\<lambda>kj. P (snd kj)) al \<Longrightarrow> list_all (\<lambda>kj. P (snd kj)) (AList.delete k al)"
  by (induction al) auto

lemma updateJob_all:
  "list_all (\<lambda>kj. P (snd kj)) (jobs s) \<Longrightarrow> (\<And>j. P (u j))
   \<Longrightarrow> list_all (\<lambda>kj. P (snd kj)) (jobs (snd (updateJob jid u s)))"
  by (auto simp: updateJob_def split: option.splits intro: update_all)

lemma process_completedHasTime:
  "list_all (\<lambda>kj. completedHasTime (snd kj)) (jobs s)
   \<Longrightarrow> list_all (\<lambda>kj. completedHasTime (snd kj)) (jobs (snd (post_api_jobs_process e jid s)))"
  by (auto simp: post_api_jobs_process_def Let_def split_def effects completedHasTime_def
        split: option.splits sum.splits ai_outcome.splits intro!: updateJob_all)

lemma createJob_completedHasTime: "completedHasTime (fst (createJob t ins s))"
  by (simp add: completedHasTime_def createJob_effect)

lemma handle_completedHasTime:
  assumes "list_all (\<lambda>kj. completedHasTime (snd kj)) (jobs s)"
  shows "list_all (\<lambda>kj. completedHasTime (snd kj)) (jobs (snd (handle e r s)))"
proof (cases r)
  case (PostJobProcess jid)
  with assms show ?thesis by (simp add: process_completedHasTime)
next
  case (PostJobs parsed)
  with assms show ?thesis
    by (auto simp: post_api_jobs_def Let_def split_def effects split: option.splits
          intro!: update_all createJob_completedHasTime)
next
  case (DeleteJob jid)
  with assms show ?thesis
    by (auto simp: delete_api_jobs_def Let_def split_def effects split: option.splits
          intro!: delete_all)
next
  case GetStats
  with assms show ?thesis by (simp add: get_api_stats_def)
next
  case (PostPlatforms parsed)
  with assms show ?thesis
    by (simp add: post_api_platforms_def Let_def split_def effects split: option.splits)
next
  case (DeletePlatform pid)
  with assms show ?thesis
    by (simp add: delete_api_platforms_def Let_def split_def effects split: option.splits)
next
  case (PostWithdrawals d)
  with assms show ?thesis
    by (simp add: post_api_withdrawals_def Let_def split_def effects)
next
  case (PostAutoProcess enabled)
  with assms show ?thesis
    by (simp add: post_api_settings_auto_process_def Let_def split_def effects)
qed

lemma completed_jobs_have_completedAt:
  "reachable s \<Longrightarrow> list_all (\<lambda>kj. completedHasTime (snd kj)) (jobs s)"
proof (induction rule: reachable.induct)
  case (start rnd t0)
  show ?case
    by (simp add: init_jobs completedHasTime_def demoJobRecord_def Let_def statuses_def)
next
  case (request s e r)
  from request.IH show ?case by (rule handle_completedHasTime)
qed

subsection \<open>The numbers of the concrete inputs\<close>

lemma demo_balance:
  "MemStorage.balance demoStore = Fin (3582092774866315 / 140737488355328)"
  "MemStorage.totalEarnings demoStore = Fin (5520118358263359 / 35184372088832)"
proof -
  have "rd 25.4523 = Fin (3582092774866315 / 140737488355328)" by code_simp
  then show "MemStorage.balance demoStore = Fin (3582092774866315 / 140737488355328)"
    by (simp only: demoStore_def init_balance)
  have "rd 156.8912 = Fin (5520118358263359 / 35184372088832)" by code_simp
  then show "MemStorage.totalEarnings demoStore = Fin (5520118358263359 / 35184372088832)"
    by (simp only: demoStore_def init_balance)
qed

lemma demo_seed: "uuidSeed demoStore = 44"
  by (simp add: demoStore_def init_uuidSeed)

lemma demo_reward:
  "Job.reward (demoJobRecord zeroDraws t0 p jid 0)
     = Fin (5764607523034235 / 576460752303423488)"
  by (simp only: demo_job_fields zeroDraws_def zero_draw_amounts)

lemma demo_ledger:
  "ledgerNet (values_of (transactions demoStore))
     = Fin (- (1399634321693737 / 70368744177664))"
  "exactNet (values_of (transactions demoStore))
     = - (11465804363315093175 / 576460752303423488)"
  unfolding ledgerNet_def exactNet_def kinds_amounts kinds_values demo_kinds by code_simp+

lemma demo_pending: "pendingWithdrawalAmounts demoStore = [Fin 5]"
  unfolding kinds_pending demo_kinds by simp

lemma withdrawal_pending:
  assumes "reachable s" "withdrawalRequestSchema d"
    and "\<not> fgt (WithdrawalRequest.amount d) (MemStorage.balance s)"
  shows "pendingWithdrawalAmounts (snd (post_api_withdrawals e d s))
     = pendingWithdrawalAmounts s @ [WithdrawalRequest.amount d]"
  using withdrawal_effect(3) [OF assms(1,2), of e] assms(3)
  by (simp add: pendingWithdrawalAmounts_def values_of_def)

lemma requests_valid:
  "withdrawalRequestSchema withdrawTenth"
  "withdrawalRequestSchema withdrawMost"
  "withdrawalRequestSchema withdrawRest"
  "withdrawalRequestSchema withdrawAll"
  "withdrawalRequestSchema withdrawTooMuch"
  "withdrawalRequestSchema withdrawInfinity"
  "\<not> withdrawalRequestSchema withdrawNegative"
  by code_simp+

lemma request_amounts:
  "WithdrawalRequest.amount withdrawTenth = Fin (3602879701896397 / 36028797018963968)"
  "WithdrawalRequest.amount withdrawMost = Fin (3039929748475085 / 140737488355328)"
  "WithdrawalRequest.amount withdrawRest = Fin (8674608422259681 / 2251799813685248)"
  "WithdrawalRequest.amount withdrawAll = Fin (3582092774866315 / 140737488355328)"
  "InsertTransaction.amount tenthInsert = Fin (3602879701896397 / 36028797018963968)"
  by code_simp+

lemma sums:
  "fsub (Fin (3582092774866315 / 140737488355328))
        (Fin (3602879701896397 / 36028797018963968))
     = Fin (1784009513015391 / 70368744177664)"
  "fsub (Fin (3582092774866315 / 140737488355328))
        (Fin (3039929748475085 / 140737488355328))
     = Fin (271081513195615 / 70368744177664)"
  "fadd (Fin (3582092774866315 / 140737488355328))
        (Fin (5764607523034235 / 576460752303423488))
     = Fin (7167000299499737 / 281474976710656)"
  "fadd (Fin (7167000299499737 / 281474976710656))
        (Fin (5764607523034235 / 576460752303423488))
     = Fin (1792453762316711 / 70368744177664)"
  "fadd (Fin (5520118358263359 / 35184372088832))
        (Fin (5764607523034235 / 576460752303423488))
     = Fin (5520470201984247 / 35184372088832)"
  "fadd (Fin (5520118358263359 / 35184372088832)) (Fin (- 1))
     = Fin (5484933986174527 / 35184372088832)"
  "fsum [Fin 5, Fin (3602879701896397 / 36028797018963968)]
     = Fin (2871044762448691 / 562949953421312)"
  "fsum [Fin 5, Fin (3602879701896397 / 36028797018963968),
         Fin (3602879701896397 / 36028797018963968)]
     = Fin (1463669878895411 / 281474976710656)"
  "fadd (Fin (2871044762448691 / 562949953421312))
        (Fin (3602879701896397 / 36028797018963968))
     = Fin (1463669878895411 / 281474976710656)"
  by code_simp+

lemma after_one_tenth:
  "reachable afterOneTenth"
  "MemStorage.balance afterOneTenth = Fin (1784009513015391 / 70368744177664)"
  "pendingWithdrawalAmounts afterOneTenth
     = [Fin 5, Fin (3602879701896397 / 36028797018963968)]"
proof -
  have s: "afterOneTenth = snd (post_api_withdrawals envNoModule withdrawTenth demoStore)"
    by (simp add: afterOneTenth_def)
  have le: "\<not> fgt (WithdrawalRequest.amount withdrawTenth) (MemStorage.balance demoStore)"
    by (simp add: request_amounts demo_balance)
  show "reachable afterOneTenth"
    unfolding afterOneTenth_def by (rule reachable_serve) (rule reachable_demo)
  show "MemStorage.balance afterOneTenth = Fin (1784009513015391 / 70368744177664)"
    unfolding s withdrawal_effect(4) [OF reachable_demo requests_valid(1) le]
    by (simp only: request_amounts demo_balance sums)
  show "pendingWithdrawalAmounts afterOneTenth
     = [Fin 5, Fin (3602879701896397 / 36028797018963968)]"
    unfolding s withdrawal_pending [OF reachable_demo requests_valid(1) le]
    by (simp add: demo_pending request_amounts)
qed

lemma after_two_tenths:
  "pendingWithdrawalAmounts afterTwoTenths
     = [Fin 5, Fin (3602879701896397 / 36028797018963968),
        Fin (3602879701896397 / 36028797018963968)]"
proof -
  have s: "afterTwoTenths
      = snd (post_api_withdrawals envNoModule withdrawTenth afterOneTenth)"
    by (simp add: afterTwoTenths_def)
  have le: "\<not> fgt (WithdrawalRequest.amount withdrawTenth) (MemStorage.balance afterOneTenth)"
    by (simp add: request_amounts after_one_tenth)
  show ?thesis
    unfolding s withdrawal_pending [OF after_one_tenth(1) requests_valid(1) le]
    by (simp add: after_one_tenth request_amounts)
qed

lemma after_most:
  "reachable afterMost"
  "MemStorage.balance afterMost = Fin (271081513195615 / 70368744177664)"
proof -
  have s: "afterMost = snd (post_api_withdrawals envNoModule withdrawMost demoStore)"
    by (simp add: afterMost_def)
  have le: "\<not> fgt (WithdrawalRequest.amount withdrawMost) (MemStorage.balance demoStore)"
    by (simp add: request_amounts demo_balance)
  show "reachable afterMost"
    unfolding afterMost_def by (rule reachable_serve) (rule reachable_demo)
  show "MemStorage.balance afterMost = Fin (271081513195615 / 70368744177664)"
    unfolding s withdrawal_effect(4) [OF reachable_demo requests_valid(2) le]
    by (simp only: request_amounts demo_balance sums)
qed

lemma answering:
  "openaiModule envAnswering = Some aiAnswers"
  "aiAnswers c = Returns ''4''"
  "now envAnswering = 1000"
  by (simp_all add: envAnswering_def aiAnswers_def)

lemma after_one_earning:
  "reachable afterOneEarning"
  "getJob (UUID 1) afterOneEarning
     = Some ((demoJobRecord zeroDraws 0 (UUID 0) (UUID 1) 0)
          \<lparr>Job.status := ''completed'', Job.result := Some ''4'',
           Job.completedAt := Some 1000\<rparr>)"
  "MemStorage.balance afterOneEarning = Fin (7167000299499737 / 281474976710656)"
  "MemStorage.totalEarnings afterOneEarning = Fin (5520470201984247 / 35184372088832)"
proof -
  let ?job = "demoJobRecord zeroDraws 0 (UUID 0) (UUID 1) 0"
  let ?c = "SolveCaptchaImage (Str ''https://via.placeholder.com/200x80?text=CAPTCHA'')"
  have s: "afterOneEarning = snd (post_api_jobs_process envAnswering (UUID 1) demoStore)"
    by (simp add: afterOneEarning_def)
  have g: "getJob (UUID 1) demoStore = Some ?job"
    unfolding demoStore_def by (rule init_getJob)
  have sel: "selectOperation ?job = Inr ?c"
    by (rule demo_select)
  note p = process_returns [OF reachable_demo g answering(1) sel answering(2)]
  show "reachable afterOneEarning"
    unfolding afterOneEarning_def by (rule reachable_serve) (rule reachable_demo)
  show "getJob (UUID 1) afterOneEarning
     = Some (?job\<lparr>Job.status := ''completed'', Job.result := Some ''4'',
                  Job.completedAt := Some 1000\<rparr>)"
    unfolding s p(2) by (simp add: answering)
  show "MemStorage.balance afterOneEarning = Fin (7167000299499737 / 281474976710656)"
    unfolding s p(4) by (simp only: demo_balance demo_reward sums)
  show "MemStorage.totalEarnings afterOneEarning = Fin (5520470201984247 / 35184372088832)"
  proof -
    have pos: "fgt (Fin (5764607523034235 / 576460752303423488)) (Fin 0)" by simp
    show ?thesis
      unfolding s p(5) by (simp only: demo_balance demo_reward pos if_True sums)
  qed
qed

lemma after_two_earnings:
  "reachable afterTwoEarnings"
  "MemStorage.balance afterTwoEarnings = Fin (1792453762316711 / 70368744177664)"
proof -
  let ?job = "(demoJobRecord zeroDraws 0 (UUID 0) (UUID 1) 0)
          \<lparr>Job.status := ''completed'', Job.result := Some ''4'',
           Job.completedAt := Some 1000\<rparr>"
  let ?c = "SolveCaptchaImage (Str ''https://via.placeholder.com/200x80?text=CAPTCHA'')"
  have s: "afterTwoEarnings
      = snd (post_api_jobs_process envAnswering (UUID 1) afterOneEarning)"
    by (simp add: afterTwoEarnings_def)
  have sel: "selectOperation ?job = Inr ?c"
    by (simp add: selectOperation_def demoJobRecord_def Let_def jobTypes_def)
  have rw: "Job.reward ?job = Fin (5764607523034235 / 576460752303423488)"
    by (simp add: demo_reward)
  note p = process_returns [OF after_one_earning(1,2) answering(1) sel answering(2)]
  show "reachable afterTwoEarnings"
    unfolding afterTwoEarnings_def by (rule reachable_serve) (rule after_one_earning)
  show "MemStorage.balance afterTwoEarnings = Fin (1792453762316711 / 70368744177664)"
    unfolding s p(4) by (simp only: after_one_earning rw sums)
qed

lemma infinite_job_stored:
  "getJob (UUID 44) storeWithInfiniteJob
     = Some (fst (createJob (now envAnswering) infiniteRewardJob demoStore))"
  "MemStorage.balance storeWithInfiniteJob = MemStorage.balance demoStore"
  by (simp_all add: storeWithInfiniteJob_def post_api_jobs_def Let_def split_def getJob_def
        effects update_conv' demo_seed)

lemma infinite_balance:
  "reachable storeWithInfiniteBalance"
  "MemStorage.balance storeWithInfiniteBalance = PosInf"
proof -
  let ?job = "fst (createJob (now envAnswering) infiniteRewardJob demoStore)"
  have r: "reachable storeWithInfiniteJob"
    unfolding storeWithInfiniteJob_def by (rule reachable_serve) (rule reachable_demo)
  have s: "storeWithInfiniteBalance
      = snd (post_api_jobs_process envAnswering (UUID 44) storeWithInfiniteJob)"
    by (simp add: storeWithInfiniteBalance_def)
  have sel: "selectOperation ?job = Inr (SolveCaptchaText (Str ''2+2=?''))"
    by (simp add: selectOperation_def createJob_def randomUUID_def Let_def
          infiniteRewardJob_def)
  have rw: "Job.reward ?job = PosInf"
    by (simp add: createJob_def randomUUID_def Let_def infiniteRewardJob_def)
  note p = process_returns [OF r infinite_job_stored(1) answering(1) sel answering(2)]
  show "reachable storeWithInfiniteBalance"
    unfolding storeWithInfiniteBalance_def by (rule reachable_serve) (rule r)
  show "MemStorage.balance storeWithInfiniteBalance = PosInf"
    unfolding s p(4) by (simp add: rw infinite_job_stored demo_balance)
qed

lemma nan_balance:
  "reachable storeWithNaNBalance"
  "MemStorage.balance storeWithNaNBalance = NaN"
proof -
  have s: "storeWithNaNBalance
      = snd (post_api_withdrawals envNoModule withdrawInfinity storeWithInfiniteBalance)"
    by (simp add: storeWithNaNBalance_def)
  have am: "WithdrawalRequest.amount withdrawInfinity = PosInf"
    by (simp add: withdrawInfinity_def)
  have le: "\<not> fgt (WithdrawalRequest.amount withdrawInfinity)
      (MemStorage.balance storeWithInfiniteBalance)"
    by (simp add: am infinite_balance)
  show "reachable storeWithNaNBalance"
    unfolding storeWithNaNBalance_def by (rule reachable_serve) (rule infinite_balance)
  show "MemStorage.balance storeWithNaNBalance = NaN"
    unfolding s withdrawal_effect(4) [OF infinite_balance(1) requests_valid(6) le]
    by (simp add: am infinite_balance fsub_def)
qed

section \<open>The claims\<close>

subsection \<open>C1\<close>

text \<open>
  C1, as stated, fails in the first reachable state. With every random draw 0 the demo
  ledger holds eleven earnings of 0.01 and four withdrawals of 5. Their net is about
  -19.89, whether the amounts are added as the program adds numbers or exactly, and the
  demo balance is 25.4523.
\<close>

theorem C1_demo_balance_differs_from_ledger:
  "reachable demoStore
   \<and> MemStorage.balance demoStore \<noteq> ledgerNet (values_of (transactions demoStore))
   \<and> finValue (MemStorage.balance demoStore)
       \<noteq> exactNet (values_of (transactions demoStore))"
  by (simp add: reachable_demo demo_ledger demo_balance)

text \<open>
  C1, amended. In every state that the server reaches from start-up by requests handled
  one after another, the balance is what the store's arithmetic makes of the demo balance
  25.4523 and the transactions created since start-up, those after the fifteen of the
  demo data, taken in the order of their creation and whatever their status: an earning
  adds its amount to the balance and a withdrawal subtracts it, each time as one operation
  on doubles, which rounds, and which gives NaN once an amount is no number.
\<close>

theorem C1_balance_since_startup:
  "reachable s \<Longrightarrow>
     MemStorage.balance s
       = foldl applyTransaction (rd 25.4523) (drop 15 (values_of (transactions s)))"
  by (simp add: reachable_ledger)

text \<open>The first demo job, reward 0.01, processed twice with success: the balance is
  25.472300000000004, the double next above the one nearest to 25.4723.\<close>

theorem C1_witness_two_earnings:
  "MemStorage.balance afterTwoEarnings
     = foldl applyTransaction (rd 25.4523) (drop 15 (values_of (transactions afterTwoEarnings)))
   \<and> MemStorage.balance afterTwoEarnings = Fin (1792453762316711 / 70368744177664)"
  using C1_balance_since_startup [OF after_two_earnings(1)] after_two_earnings(2)
  by simp

subsection \<open>C2\<close>



subsection \<open>C3\<close>

text \<open>
  C3. The claim is that \<open>completedAt\<close> is set exactly when the status is
  \<open>completed\<close>. The third demo job is completed; processing it again with a
  completion call that throws leaves it \<open>failed\<close> with \<open>completedAt\<close> still set.
\<close>

theorem C3_failed_job_keeps_completedAt:
  "map_option (\<lambda>j. (Job.status j, Job.completedAt j))
     (getJob (UUID 3) (serve [(envFailing, PostJobProcess (UUID 3))] demoStore))
   = Some (''failed'', Some 0)"
proof -
  let ?job = "demoJobRecord zeroDraws 0 (UUID 0) (UUID 3) 2"
  have r: "reachable demoStore" unfolding demoStore_def by (rule reachable.start)
  have g: "getJob (UUID 3) demoStore = Some ?job"
    by (simp add: demoStore_def init_getJob)
  have out: "(case selectOperation ?job of Inl m \<Rightarrow> ThrowsError m | Inr c \<Rightarrow> aiFails c)
      = ThrowsError ''CAPTCHA solving failed''"
    by (simp add: aiFails_def demo_select)
  have e: "openaiModule envFailing = Some aiFails" by (simp add: envFailing_def)
  from process_throws(2) [OF r g e out] show ?thesis
    by (simp add: demo_job_fields)
qed

subsection \<open>C4\<close>

text \<open>
  C4, as stated, fails. \<^verbatim>\<open>insertJobSchema\<close> accepts any reward; a job with reward -1
  is processed with success and \<open>totalEarnings\<close> stays as it was instead of moving by
  the reward, be the sum taken in doubles or exactly.
\<close>

theorem C4_negative_reward_totalEarnings:
  "code (fst (handle envAnswering (PostJobProcess (UUID 44)) storeWithNegativeJob)) = 200
   \<and> MemStorage.totalEarnings
         (snd (handle envAnswering (PostJobProcess (UUID 44)) storeWithNegativeJob))
       \<noteq> fadd (MemStorage.totalEarnings storeWithNegativeJob)
               (InsertJob.reward negativeRewardJob)
   \<and> finValue (MemStorage.totalEarnings
         (snd (handle envAnswering (PostJobProcess (UUID 44)) storeWithNegativeJob)))
       \<noteq> finValue (MemStorage.totalEarnings storeWithNegativeJob)
           + finValue (InsertJob.reward negativeRewardJob)"
proof -
  let ?job = "fst (createJob (now envAnswering) negativeRewardJob demoStore)"
  have r: "reachable storeWithNegativeJob"
    unfolding storeWithNegativeJob_def by (rule reachable_serve) (rule reachable_demo)
  have sel: "selectOperation ?job = Inr (SolveCaptchaText (Str ''2+2=?''))"
    by (simp add: selectOperation_def createJob_def randomUUID_def Let_def
          negativeRewardJob_def)
  have rw: "Job.reward ?job = Fin (- 1)" "InsertJob.reward negativeRewardJob = Fin (- 1)"
    by (simp_all add: createJob_def randomUUID_def Let_def negativeRewardJob_def)
  have te: "MemStorage.totalEarnings storeWithNegativeJob
      = Fin (5520118358263359 / 35184372088832)"
    by (simp add: storeWithNegativeJob_def post_api_jobs_def Let_def split_def effects
          demo_balance)
  note p = process_returns(1,5) [OF r negative_job_stored answering(1) sel answering(2)]
  have "MemStorage.totalEarnings
         (snd (handle envAnswering (PostJobProcess (UUID 44)) storeWithNegativeJob))
      = Fin (5520118358263359 / 35184372088832)"
    using p(2) by (simp add: rw te)
  moreover have "code (fst (handle envAnswering (PostJobProcess (UUID 44))
      storeWithNegativeJob)) = 200"
    using p(1) by simp
  ultimately show ?thesis
    by (simp only: rw te sums finValue.simps) simp
qed

text \<open>
  C4, amended. Provided no other request is handled between the start of a process
  request and its response: when the external call of the request returns, the response is
  200 with the returned text, the job is \<open>completed\<close> with that text as its result and
  \<open>completedAt\<close> the time of the request, a pending earning transaction for the job
  with the job's reward as amount is added, the balance becomes the double sum of the
  balance and the reward (NaN when the reward is no number), \<open>totalEarnings\<close> becomes
  the double sum of \<open>totalEarnings\<close> and the reward when the reward is greater than 0
  and is unchanged otherwise, and a \<open>success\<close> activity log is appended. The request
  is one step of the model, so the proviso holds of it.
\<close>

theorem C4_successful_processing:
  assumes "reachable s" "getJob jid s = Some job0" "openaiModule e = Some ai"
    and "selectOperation job0 = Inr c" "ai c = Returns res"
  shows "fst (post_api_jobs_process e jid s)
           = \<lparr>code = 200, body = SuccessResultBody res, calls = [c]\<rparr>
     \<and> getJob jid (snd (post_api_jobs_process e jid s))
           = Some (job0\<lparr>Job.status := ''completed'', Job.result := Some res,
                         Job.completedAt := Some (now e)\<rparr>)
     \<and> transactions (snd (post_api_jobs_process e jid s))
           = transactions s @
             [(UUID (uuidSeed s),
               \<lparr>Transaction.id = UUID (uuidSeed s), jobId = Some jid, type = ''earning'',
                amount = Job.reward job0, status = ''pending'', paymentMethod = None,
                paymentAddress = None, transactionHash = None, createdAt = now e,
                completedAt = None\<rparr>)]
     \<and> MemStorage.balance (snd (post_api_jobs_process e jid s))
           = fadd (MemStorage.balance s) (Job.reward job0)
     \<and> MemStorage.totalEarnings (snd (post_api_jobs_process e jid s))
           = (if fgt (Job.reward job0) (Fin 0)
              then fadd (MemStorage.totalEarnings s) (Job.reward job0)
              else MemStorage.totalEarnings s)
     \<and> activityLogs (snd (post_api_jobs_process e jid s))
           = activityLogs s @
             [(UUID (Suc (uuidSeed s)),
               \<lparr>ActivityLog.id = UUID (Suc (uuidSeed s)), jobId = Some jid,
                action = (if Job.type job0 = ''captcha'' then ''CAPTCHA solved''
                          else ''Typing job completed''),
                details = Some [Lit ''Earned $'', Amount (Job.reward job0)],
                status = ''success'', createdAt = now e\<rparr>)]"
  using process_returns [OF assms] by simp

text \<open>Processing the first demo job, a captcha with an image, reward 0.01: the balance
  goes from 25.4523 to 25.462300000000003 and \<open>totalEarnings\<close> from 156.8912 to
  156.9012.\<close>

theorem C4_witness_demo_job:
  "code (fst (post_api_jobs_process envAnswering (UUID 1) demoStore)) = 200
   \<and> MemStorage.balance (snd (post_api_jobs_process envAnswering (UUID 1) demoStore))
       = Fin (7167000299499737 / 281474976710656)
   \<and> MemStorage.totalEarnings (snd (post_api_jobs_process envAnswering (UUID 1) demoStore))
       = Fin (5520470201984247 / 35184372088832)"
proof -
  let ?job = "demoJobRecord zeroDraws 0 (UUID 0) (UUID 1) 0"
  let ?c = "SolveCaptchaImage (Str ''https://via.placeholder.com/200x80?text=CAPTCHA'')"
  have g: "getJob (UUID 1) demoStore = Some ?job"
    unfolding demoStore_def by (rule init_getJob)
  have sel: "selectOperation ?job = Inr ?c"
    by (rule demo_select)
  have pos: "fgt (Fin (5764607523034235 / 576460752303423488)) (Fin 0)" by simp
  from C4_successful_processing [OF reachable_demo g answering(1) sel answering(2)]
  show ?thesis
    by (simp only: demo_balance demo_reward pos if_True sums) simp
qed

subsection \<open>C5\<close>

text \<open>
  C5, as stated, fails. A request for a negative amount does not exceed the balance, yet
  the schema rejects it with 400 and the store is left as it was: no transaction is created.
\<close>

theorem C5_negative_amount_creates_nothing:
  "\<not> fgt (WithdrawalRequest.amount withdrawNegative) (MemStorage.balance demoStore)
   \<and> post_api_withdrawals envNoModule withdrawNegative demoStore
       = (respond 400 ZodErrorBody, demoStore)"
  by (simp add: withdrawal_invalid requests_valid)
     (simp add: withdrawNegative_def demo_balance)

text \<open>
  C5, amended. In every state reached by requests handled one after another: a
  withdrawal request that \<^verbatim>\<open>withdrawalRequestSchema\<close> rejects (an amount that is NaN or
  not positive, an unknown payment method, an empty address) is answered 400 and changes
  nothing. One that the schema accepts is answered 400 \<open>Insufficient balance\<close> when the
  comparison \<^verbatim>\<open>amount > balance\<close> on doubles holds, and again nothing changes.
  Otherwise (so always when the balance is NaN) it is answered 201, a pending withdrawal
  transaction for the amount is added, the balance becomes at once the double difference
  of the balance and the amount, and an \<open>info\<close> activity log is appended.
\<close>

theorem C5_withdrawal_request:
  assumes "reachable s"
  shows "(\<not> withdrawalRequestSchema d \<longrightarrow>
            post_api_withdrawals e d s = (respond 400 ZodErrorBody, s))
     \<and> (withdrawalRequestSchema d
          \<and> fgt (WithdrawalRequest.amount d) (MemStorage.balance s) \<longrightarrow>
            post_api_withdrawals e d s = (respond 400 (ErrorBody ''Insufficient balance''), s))
     \<and> (withdrawalRequestSchema d
          \<and> \<not> fgt (WithdrawalRequest.amount d) (MemStorage.balance s) \<longrightarrow>
            code (fst (post_api_withdrawals e d s)) = 201
            \<and> transactions (snd (post_api_withdrawals e d s))
                = transactions s @
                  [(UUID (uuidSeed s),
                    \<lparr>Transaction.id = UUID (uuidSeed s), jobId = None, type = ''withdrawal'',
                     amount = WithdrawalRequest.amount d, status = ''pending'',
                     paymentMethod = Some (WithdrawalRequest.paymentMethod d),
                     paymentAddress = Some (WithdrawalRequest.paymentAddress d),
                     transactionHash = None, createdAt = now e, completedAt = None\<rparr>)]
            \<and> MemStorage.balance (snd (post_api_withdrawals e d s))
                = fsub (MemStorage.balance s) (WithdrawalRequest.amount d)
            \<and> activityLogs (snd (post_api_withdrawals e d s))
                = activityLogs s @
                  [(UUID (Suc (uuidSeed s)),
                    \<lparr>ActivityLog.id = UUID (Suc (uuidSeed s)), jobId = None,
                     action = ''Withdrawal requested'',
                     details = Some [Lit ''$'', Amount (WithdrawalRequest.amount d),
                                     Lit '' via '', Lit (WithdrawalRequest.paymentMethod d)],
                     status = ''info'', createdAt = now e\<rparr>)])"
  using withdrawal_effect [OF assms, of d e] withdrawal_invalid [of d e s]
  by (simp add: respond_def)

text \<open>On the demo store, balance 25.4523: asking for 100 is refused; asking for 21.6 is
  accepted and leaves 3.8522999999999996; asking then for 3.8523 is refused. Once the
  balance is NaN, asking for 100 is accepted.\<close>

theorem C5_witness_demo_store:
  "post_api_withdrawals envNoModule withdrawTooMuch demoStore
     = (respond 400 (ErrorBody ''Insufficient balance''), demoStore)
   \<and> code (fst (post_api_withdrawals envNoModule withdrawMost demoStore)) = 201
   \<and> MemStorage.balance (snd (post_api_withdrawals envNoModule withdrawMost demoStore))
       = Fin (271081513195615 / 70368744177664)
   \<and> post_api_withdrawals envNoModule withdrawRest afterMost
       = (respond 400 (ErrorBody ''Insufficient balance''), afterMost)
   \<and> code (fst (post_api_withdrawals envNoModule withdrawTooMuch storeWithNaNBalance)) = 201"
proof -
  have a: "fgt (WithdrawalRequest.amount withdrawTooMuch) (MemStorage.balance demoStore)"
    by (simp add: withdrawTooMuch_def demo_balance)
  have b: "\<not> fgt (WithdrawalRequest.amount withdrawMost) (MemStorage.balance demoStore)"
    by (simp add: request_amounts demo_balance)
  have c: "fgt (WithdrawalRequest.amount withdrawRest) (MemStorage.balance afterMost)"
    by (simp add: request_amounts after_most)
  have d: "fsub (MemStorage.balance demoStore) (WithdrawalRequest.amount withdrawMost)
      = Fin (271081513195615 / 70368744177664)"
    by (simp only: request_amounts demo_balance sums)
  have n: "\<not> fgt (WithdrawalRequest.amount withdrawTooMuch)
      (MemStorage.balance storeWithNaNBalance)"
    by (simp add: nan_balance withdrawTooMuch_def)
  from C5_withdrawal_request [OF reachable_demo, of withdrawTooMuch envNoModule]
    C5_withdrawal_request [OF reachable_demo, of withdrawMost envNoModule]
    C5_withdrawal_request [OF after_most(1), of withdrawRest envNoModule]
    C5_withdrawal_request [OF nan_balance(1), of withdrawTooMuch envNoModule]
  show ?thesis
    by (simp only: requests_valid a b c d n simp_thms)
qed

subsection \<open>C6\<close>

text \<open>
  C6. A process request for a stored job, with the completion module loaded (the two
  preconditions of the route), whose type and payload are not one of the four supported
  combinations, makes no external call, answers 500, and leaves the job with status
  \<open>failed\<close> and one of the three descriptive messages stored on it.
\<close>

theorem C6_unsupported_job_fails_before_call:
  assumes "reachable s" "getJob jid s = Some job0" "openaiModule e = Some ai"
    and "\<not> supportedCombination job0"
  shows "calls (fst (post_api_jobs_process e jid s)) = []
     \<and> code (fst (post_api_jobs_process e jid s)) = 500
     \<and> (\<exists>m \<in> set descriptiveErrors.
           body (fst (post_api_jobs_process e jid s)) = ErrorBody m
           \<and> getJob jid (snd (post_api_jobs_process e jid s))
               = Some (job0\<lparr>Job.status := ''failed'', Job.errorMessage := Some m,
                             Job.retryCount := Job.retryCount job0 + 1\<rparr>))"
proof -
  from unsupported_select [OF assms(4)] obtain m
    where m: "m \<in> set descriptiveErrors" "selectOperation job0 = Inl m" by blast
  have out: "(case selectOperation job0 of Inl m \<Rightarrow> ThrowsError m | Inr c \<Rightarrow> ai c)
      = ThrowsError m"
    by (simp add: m(2))
  from process_throws [OF assms(1-3) out] m show ?thesis
    by auto
qed

text \<open>The fourth demo job is a typing job with a text and no format, failed twice
  before: the message \<open>No typing data provided\<close> is answered and stored, and the retry
  count goes from 2 to 3.\<close>

theorem C6_witness_demo_typing_job:
  "calls (fst (post_api_jobs_process envAnswering (UUID 4) demoStore)) = []
   \<and> code (fst (post_api_jobs_process envAnswering (UUID 4) demoStore)) = 500
   \<and> body (fst (post_api_jobs_process envAnswering (UUID 4) demoStore))
       = ErrorBody ''No typing data provided''
   \<and> map_option (\<lambda>j. (Job.status j, Job.errorMessage j, Job.retryCount j))
        (getJob (UUID 4) (snd (post_api_jobs_process envAnswering (UUID 4) demoStore)))
       = Some (''failed'', Some ''No typing data provided'', 3)"
proof -
  let ?job = "demoJobRecord zeroDraws 0 (UUID 0) (UUID 4) 3"
  let ?r = "post_api_jobs_process envAnswering (UUID 4) demoStore"
  have g: "getJob (UUID 4) demoStore = Some ?job"
    unfolding demoStore_def by (rule init_getJob)
  have u: "\<not> supportedCombination ?job"
    by (simp add: supportedCombination_def hasPayload_def demo_job_fields)
  have rc: "Job.retryCount ?job = 2"
    by (simp add: demoJobRecord_def Let_def statuses_def)
  have out: "(case selectOperation ?job of Inl m \<Rightarrow> ThrowsError m | Inr c \<Rightarrow> aiAnswers c)
      = ThrowsError ''No typing data provided''"
    by (simp add: demo_select)
  from process_throws(1) [OF reachable_demo g answering(1) out]
  have b: "body (fst ?r) = ErrorBody ''No typing data provided''"
    by simp
  from C6_unsupported_job_fails_before_call [OF reachable_demo g answering(1) u]
  obtain m where m: "calls (fst ?r) = []" "code (fst ?r) = 500" "body (fst ?r) = ErrorBody m"
    "getJob (UUID 4) (snd ?r)
       = Some (?job\<lparr>Job.status := ''failed'', Job.errorMessage := Some m,
                    Job.retryCount := Job.retryCount ?job + 1\<rparr>)"
    by blast
  from m(3) b have "m = ''No typing data provided''" by simp
  with m b rc show ?thesis by simp
qed

subsection \<open>C7\<close>

text \<open>
  C7, as stated, fails. On the demo store, where one withdrawal of 5 is pending, two
  withdrawals of 0.1 are requested and accepted. \<open>pendingWithdrawals\<close> is then
  5.199999999999999, which is not the sum of the three pending amounts, and the second
  request has not raised it by its amount.
\<close>

theorem C7_pending_sum_is_rounded:
  "reachable afterOneTenth
   \<and> afterTwoTenths = snd (handle envNoModule (PostWithdrawals withdrawTenth) afterOneTenth)
   \<and> DashboardStats.pendingWithdrawals (getDashboardStats 0 afterTwoTenths)
       \<noteq> Fin (sum_list (map finValue (pendingWithdrawalAmounts afterTwoTenths)))
   \<and> finValue (DashboardStats.pendingWithdrawals (getDashboardStats 0 afterTwoTenths))
       \<noteq> finValue (DashboardStats.pendingWithdrawals (getDashboardStats 0 afterOneTenth))
           + finValue (WithdrawalRequest.amount withdrawTenth)"
proof -
  have p1: "DashboardStats.pendingWithdrawals (getDashboardStats 0 afterOneTenth)
      = Fin (2871044762448691 / 562949953421312)"
    by (simp only: stats_fields after_one_tenth sums)
  have p2: "DashboardStats.pendingWithdrawals (getDashboardStats 0 afterTwoTenths)
      = Fin (1463669878895411 / 281474976710656)"
    by (simp only: stats_fields after_two_tenths sums)
  have ex: "sum_list (map finValue (pendingWithdrawalAmounts afterTwoTenths))
      = 93674872249306317 / 18014398509481984"
    by (simp add: after_two_tenths)
  have "afterTwoTenths
      = snd (handle envNoModule (PostWithdrawals withdrawTenth) afterOneTenth)"
    by (simp add: afterTwoTenths_def)
  moreover have "DashboardStats.pendingWithdrawals (getDashboardStats 0 afterTwoTenths)
       \<noteq> Fin (sum_list (map finValue (pendingWithdrawalAmounts afterTwoTenths)))"
    by (simp add: p2 ex)
  moreover have
    "finValue (DashboardStats.pendingWithdrawals (getDashboardStats 0 afterTwoTenths))
       \<noteq> finValue (DashboardStats.pendingWithdrawals (getDashboardStats 0 afterOneTenth))
           + finValue (WithdrawalRequest.amount withdrawTenth)"
    by (simp add: p1 p2 request_amounts)
  ultimately show ?thesis
    using after_one_tenth(1) by blast
qed

text \<open>
  C7, amended. For every store state, \<open>pendingWithdrawals\<close> is the result of adding
  to 0, one after the other in the order of their creation and each time as a rounded
  addition of doubles, the amounts of the transactions of type \<open>withdrawal\<close> and status
  \<open>pending\<close>; and in every state reached by requests handled one after another,
  creating a withdrawal transaction of some amount (it is created pending) turns
  \<open>pendingWithdrawals\<close> into the double sum of its former value and that amount.
\<close>

theorem C7_pendingWithdrawals:
  "DashboardStats.pendingWithdrawals (getDashboardStats day s)
     = fsum (pendingWithdrawalAmounts s)
   \<and> (reachable s \<longrightarrow> InsertTransaction.type ins = ''withdrawal'' \<longrightarrow>
        Transaction.status (fst (createTransaction t ins s)) = ''pending''
        \<and> DashboardStats.pendingWithdrawals
            (getDashboardStats day (snd (createTransaction t ins s)))
          = fadd (DashboardStats.pendingWithdrawals (getDashboardStats day s))
                 (InsertTransaction.amount ins))"
  by (simp add: stats_fields pending_after_withdrawal tx_fields fsum_def)

text \<open>A second withdrawal of 0.1 created after the first: 5.1 becomes
  5.199999999999999.\<close>

theorem C7_witness_second_tenth:
  "DashboardStats.pendingWithdrawals (getDashboardStats 0 afterOneTenth)
     = Fin (2871044762448691 / 562949953421312)
   \<and> DashboardStats.pendingWithdrawals
       (getDashboardStats 0 (snd (createTransaction 0 tenthInsert afterOneTenth)))
     = Fin (1463669878895411 / 281474976710656)"
proof -
  have ty: "InsertTransaction.type tenthInsert = ''withdrawal''"
    by (simp add: tenthInsert_def)
  have p: "fsum (pendingWithdrawalAmounts afterOneTenth)
      = Fin (2871044762448691 / 562949953421312)"
    by (simp only: after_one_tenth sums)
  from C7_pendingWithdrawals [of 0 afterOneTenth tenthInsert 0] after_one_tenth(1) ty
  show ?thesis
    by (simp only: p request_amounts sums simp_thms)
qed

subsection \<open>C8\<close>



subsection \<open>C9\<close>

text \<open>
  C9, as stated, fails. A job whose reward text is \<^verbatim>\<open>1e999\<close> is accepted, and once
  it is processed with success the balance is infinite. A withdrawal request for that
  balance passes the schema and the comparison, and the balance becomes NaN, not zero.
\<close>

theorem C9_infinite_balance_becomes_NaN:
  "reachable storeWithInfiniteBalance
   \<and> withdrawalRequestSchema withdrawInfinity
   \<and> WithdrawalRequest.amount withdrawInfinity = MemStorage.balance storeWithInfiniteBalance
   \<and> code (fst (post_api_withdrawals envNoModule withdrawInfinity storeWithInfiniteBalance))
       = 201
   \<and> MemStorage.balance
       (snd (post_api_withdrawals envNoModule withdrawInfinity storeWithInfiniteBalance))
       = NaN"
proof -
  have am: "WithdrawalRequest.amount withdrawInfinity = PosInf"
    by (simp add: withdrawInfinity_def)
  have le: "\<not> fgt (WithdrawalRequest.amount withdrawInfinity)
      (MemStorage.balance storeWithInfiniteBalance)"
    by (simp add: am infinite_balance)
  from withdrawal_effect(2,4) [OF infinite_balance(1) requests_valid(6) le, of envNoModule]
  show ?thesis
    by (simp add: infinite_balance requests_valid respond_def am fsub_def)
qed

text \<open>
  C9, amended. In every state reached by requests handled one after another and in which
  the balance is not infinite, a withdrawal request that the schema accepts (its amount
  is then a positive number) for exactly the current balance, as a double, is accepted,
  the comparison being a strict one: a pending withdrawal transaction for the amount is
  added and the balance becomes exactly zero.
\<close>

theorem C9_withdraw_whole_balance:
  assumes "reachable s" "withdrawalRequestSchema d"
    and "WithdrawalRequest.amount d = MemStorage.balance s"
    and "MemStorage.balance s \<noteq> PosInf"
  shows "code (fst (post_api_withdrawals e d s)) = 201
     \<and> transactions (snd (post_api_withdrawals e d s))
         = transactions s @
           [(UUID (uuidSeed s),
             \<lparr>Transaction.id = UUID (uuidSeed s), jobId = None, type = ''withdrawal'',
              amount = WithdrawalRequest.amount d, status = ''pending'',
              paymentMethod = Some (WithdrawalRequest.paymentMethod d),
              paymentAddress = Some (WithdrawalRequest.paymentAddress d),
              transactionHash = None, createdAt = now e, completedAt = None\<rparr>)]
     \<and> MemStorage.balance (snd (post_api_withdrawals e d s)) = Fin 0"
proof -
  from assms(2,3) have "MemStorage.balance s \<noteq> NaN" "fgt (MemStorage.balance s) (Fin 0)"
    by (simp_all add: withdrawalRequestSchema_def)
  with assms(4) obtain b where b: "MemStorage.balance s = Fin b"
    by (cases "MemStorage.balance s") simp_all
  have le: "\<not> fgt (WithdrawalRequest.amount d) (MemStorage.balance s)"
    by (simp add: assms(3) b)
  have z: "fsub (MemStorage.balance s) (WithdrawalRequest.amount d) = Fin 0"
    by (simp add: assms(3) b fsub_def rd_def)
  from withdrawal_effect(2-4) [OF assms(1,2) le, of e] z show ?thesis
    by (simp add: respond_def)
qed

text \<open>Withdrawing the demo balance of 25.4523.\<close>

theorem C9_witness_demo_store:
  "code (fst (post_api_withdrawals envNoModule withdrawAll demoStore)) = 201
   \<and> MemStorage.balance (snd (post_api_withdrawals envNoModule withdrawAll demoStore))
       = Fin 0"
proof -
  have b: "WithdrawalRequest.amount withdrawAll = MemStorage.balance demoStore"
    by (simp only: request_amounts demo_balance)
  have f: "MemStorage.balance demoStore \<noteq> PosInf"
    by (simp add: demo_balance)
  from C9_withdraw_whole_balance [OF reachable_demo requests_valid(4) b f, of envNoModule]
  show ?thesis by simp
qed

subsection \<open>C10\<close>

text \<open>
  C10. \<^verbatim>\<open>createTransaction\<close> creates every transaction, whatever its type, with status
  \<open>pending\<close> and neither hash nor completion time. No request changes a stored
  transaction: the map after a request starts with the map before it. So in every
  reachable state all transactions created since start-up, the earnings of completed
  jobs among them, are still pending.
\<close>

theorem C10_transactions_stay_pending:
  "freshlyCreated (fst (createTransaction t ins s))
   \<and> (reachable s \<longrightarrow>
        take (length (transactions s)) (transactions (snd (handle e r s))) = transactions s
        \<and> list_all freshlyCreated (drop 15 (values_of (transactions s))))"
  by (simp add: freshly_tx handle_keeps_transactions reachable_ledger)

text \<open>A withdrawal on the demo store leaves the fifteen demo transactions as they
  were.\<close>

theorem C10_witness_demo_store:
  "take (length (transactions demoStore))
     (transactions (snd (handle envNoModule (PostWithdrawals withdrawAll) demoStore)))
   = transactions demoStore"
  using C10_transactions_stay_pending [of 0 tenthInsert demoStore envNoModule "PostWithdrawals withdrawAll"]
    reachable_demo
  by simp


end
